theory Spec2Isabelle
  imports Complex_Main
begin

section \<open>The MeanEdge trading engine\<close>

text \<open>
  A shallow embedding of \<^verbatim>\<open>src/trading_engine.hpp\<close>: the EMA calculator, the two-candle
  pattern strategy, the risk manager, the position, and the engine that drives them over a
  list of candles.

  Conventions of the model.
  \<^item> A C++ \<^verbatim>\<open>double\<close> is a \<^typ>\<open>real\<close>, and every arithmetic operation on doubles rounds its
    exact result once: \<open>fadd rnd x y\<close> is \<open>rnd (x + y)\<close>, and so on. The rounding \<open>rnd\<close> is an
    argument of every function that computes with doubles; the program is the model at
    \<open>rnd = binary64\<close>, rounding to the nearest double, ties to even. A decimal literal that is
    not a double is rounded as well (\<^verbatim>\<open>0.03\<close> is \<open>rnd 0.03\<close>); comparison, negation and the
    conversion of an \<^verbatim>\<open>int\<close> are exact. Each operation is rounded on its own (no fused
    multiply-add, no excess precision); overflow to infinity and NaN are outside the model.
    The model at \<open>rnd = (\<lambda>y. y)\<close> is the program in exact arithmetic.
  \<^item> A C++ \<^verbatim>\<open>int\<close> is an \<^typ>\<open>int\<close>; the one place where a value enters an \<^verbatim>\<open>int\<close> from
    outside its range (the cast in \<^verbatim>\<open>calculatePositionSize\<close>) is an explicit error.
  \<^item> Private members drop their trailing underscore (\<^verbatim>\<open>ema_\<close> is \<open>ema\<close>); a field whose name
    occurs in several structs is written qualified (\<open>Trade.quantity\<close>, \<open>Position.quantity\<close>).
    \<^verbatim>\<open>Candle::open\<close> is \<open>open_c\<close>, \<^verbatim>\<open>Position::open\<close> and \<^verbatim>\<open>Position::close\<close> are
    \<open>Position_open\<close> and \<open>Position_close\<close>.
  \<^item> Exceptions (\<^verbatim>\<open>std::stoi\<close>, \<^verbatim>\<open>std::string::substr\<close>) are values of type \<open>error\<close>; a function
    that can throw returns \<open>error + 'a\<close>.
  \<^item> Of the console output, the model keeps the messages of \<^verbatim>\<open>logMessage\<close> and the reason that
    \<^verbatim>\<open>logExit\<close> prints, in the field \<open>console\<close> of the engine, oldest first. The other prints
    (candles, trades, the open-position status, header and summary banners) are dropped.
  \<^item> A variable named like a field carries a prime (\<open>entry_price'\<close>); the constructor of a
    class \<^verbatim>\<open>C\<close> is \<open>new_C\<close>.
\<close>

subsection \<open>Double arithmetic\<close>

type_synonym rounding = "real \<Rightarrow> real"

definition fadd :: "rounding \<Rightarrow> real \<Rightarrow> real \<Rightarrow> real" where
  "fadd rnd x y = rnd (x + y)"

definition fsub :: "rounding \<Rightarrow> real \<Rightarrow> real \<Rightarrow> real" where
  "fsub rnd x y = rnd (x - y)"

definition fmul :: "rounding \<Rightarrow> real \<Rightarrow> real \<Rightarrow> real" where
  "fmul rnd x y = rnd (x * y)"

definition fdiv :: "rounding \<Rightarrow> real \<Rightarrow> real \<Rightarrow> real" where
  "fdiv rnd x y = rnd (x / y)"

text \<open>
  Rounding to the nearest double (IEEE 754 binary64), ties to even: a number of binary
  exponent \<open>e\<close> is rounded to a multiple of \<open>2 ^ (e - 52)\<close>; below \<open>2 ^ -1022\<close> the spacing stays
  that of the subnormal numbers.
\<close>

definition pow2 :: "int \<Rightarrow> real" where
  "pow2 k = (if 0 \<le> k then 2 ^ nat k else 1 / 2 ^ nat (- k))"

definition round_even :: "real \<Rightarrow> int" where
  "round_even x =
     (let f = \<lfloor>x\<rfloor>
      in if x - of_int f < 1 / 2 then f
         else if 1 / 2 < x - of_int f then f + 1
         else if even f then f else f + 1)"

definition expo :: "real \<Rightarrow> int" where
  "expo x = max \<lfloor>log 2 \<bar>x\<bar>\<rfloor> (- 1022)"

definition binary64 :: rounding where
  "binary64 x =
     (if x = 0 then 0
      else (let u = pow2 (expo x - 52)
            in of_int (round_even (x / u)) * u))"

subsection \<open>Core data structures\<close>

datatype Side = BUY | SELL

datatype Type = ENTRY | EXIT

datatype error = InvalidArgument | OutOfRange | UndefinedCast

record Candle =
  timestamp :: string
  open_c :: real
  high :: real
  low :: real
  close :: real

record Trade =
  timestamp :: string
  side :: Side
  type :: Type
  price :: real
  quantity :: int
  pnl :: real

record Position =
  is_open :: bool
  side :: Side
  entry_price :: real
  quantity :: int
  entry_timestamp :: string

record MarketData =
  instrument :: string
  previous_day_close :: real
  capital :: real
  candles :: "Candle list"

text \<open>The default constructors \<^verbatim>\<open>Candle()\<close> and \<^verbatim>\<open>Position()\<close>.\<close>

definition Candle0 :: Candle where
  "Candle0 = \<lparr>Candle.timestamp = [], open_c = 0, high = 0, low = 0, close = 0\<rparr>"

definition Position0 :: Position where
  "Position0 = \<lparr>is_open = False, Position.side = BUY, entry_price = 0,
                 Position.quantity = 0, entry_timestamp = []\<rparr>"

definition Position_open :: "Position \<Rightarrow> Side \<Rightarrow> real \<Rightarrow> int \<Rightarrow> string \<Rightarrow> Position" where
  "Position_open p s pr qty ts =
     p\<lparr>is_open := True, Position.side := s, entry_price := pr,
       Position.quantity := qty, entry_timestamp := ts\<rparr>"

definition Position_close :: "Position \<Rightarrow> Position" where
  "Position_close p =
     p\<lparr>is_open := False, entry_price := 0, Position.quantity := 0, entry_timestamp := []\<rparr>"

definition getUnrealizedPnL :: "rounding \<Rightarrow> Position \<Rightarrow> real \<Rightarrow> real" where
  "getUnrealizedPnL rnd p current_price =
     (if \<not> is_open p then 0
      else if Position.side p = BUY
           then fmul rnd (fsub rnd current_price (entry_price p)) (of_int (Position.quantity p))
           else fmul rnd (fsub rnd (entry_price p) current_price) (of_int (Position.quantity p)))"

subsection \<open>Exponential moving average\<close>

record EMACalculator =
  period :: int
  multiplier :: real
  ema :: real
  initialized :: bool

definition new_EMACalculator :: "rounding \<Rightarrow> int \<Rightarrow> EMACalculator" where
  "new_EMACalculator rnd p =
     \<lparr>period = p, multiplier = fdiv rnd 2 (fadd rnd (of_int p) 1), ema = 0,
      initialized = False\<rparr>"

definition update :: "rounding \<Rightarrow> EMACalculator \<Rightarrow> real \<Rightarrow> EMACalculator" where
  "update rnd e pr =
     (if \<not> initialized e then e\<lparr>ema := pr, initialized := True\<rparr>
      else e\<lparr>ema := fadd rnd (fmul rnd pr (multiplier e))
                              (fmul rnd (ema e) (fsub rnd 1 (multiplier e)))\<rparr>)"

definition getValue :: "EMACalculator \<Rightarrow> real" where
  "getValue e = ema e"

definition isInitialized :: "EMACalculator \<Rightarrow> bool" where
  "isInitialized e = initialized e"

definition reset :: "EMACalculator \<Rightarrow> EMACalculator" where
  "reset e = e\<lparr>ema := 0, initialized := False\<rparr>"

text \<open>The values read off after each of a list of updates, oldest first.\<close>

fun ema_values :: "rounding \<Rightarrow> EMACalculator \<Rightarrow> real list \<Rightarrow> real list" where
  "ema_values rnd e [] = []"
| "ema_values rnd e (x # xs) = getValue (update rnd e x) # ema_values rnd (update rnd e x) xs"

subsection \<open>Strategy signal generator\<close>

record TwoCandelPatternStrategy =
  first_candle :: Candle
  first_candle_valid :: bool
  previous_day_close :: real
  ema3 :: EMACalculator
  ema5 :: EMACalculator

definition GAP_THRESHOLD :: "rounding \<Rightarrow> real" where
  "GAP_THRESHOLD rnd = rnd 0.03"

definition new_TwoCandelPatternStrategy :: "rounding \<Rightarrow> TwoCandelPatternStrategy" where
  "new_TwoCandelPatternStrategy rnd =
     \<lparr>first_candle = Candle0, first_candle_valid = False,
      TwoCandelPatternStrategy.previous_day_close = 0,
      ema3 = new_EMACalculator rnd 3, ema5 = new_EMACalculator rnd 5\<rparr>"

definition initialize :: "TwoCandelPatternStrategy \<Rightarrow> real \<Rightarrow> TwoCandelPatternStrategy" where
  "initialize s prev_close =
     s\<lparr>TwoCandelPatternStrategy.previous_day_close := prev_close,
       first_candle_valid := False,
       ema3 := reset (ema3 s), ema5 := reset (ema5 s)\<rparr>"

text \<open>
  \<open>processCandle\<close> returns the signal and the strategy after the call. The branches are
  those of the source, in its order: the readiness check, the search for a first candle, the
  breakdown check.
\<close>

definition processCandle ::
  "rounding \<Rightarrow> TwoCandelPatternStrategy \<Rightarrow> Candle \<Rightarrow> bool \<times> TwoCandelPatternStrategy" where
  "processCandle rnd s candle =
     (let s1 = s\<lparr>ema3 := update rnd (ema3 s) (close candle),
                 ema5 := update rnd (ema5 s) (close candle)\<rparr>
      in if \<not> isInitialized (ema5 s1) then (False, s1)
         else if \<not> first_candle_valid s1 then
           (let gap_condition =
                  (open_c candle \<ge> fmul rnd (TwoCandelPatternStrategy.previous_day_close s1)
                                       (fadd rnd 1 (GAP_THRESHOLD rnd)));
                ema_condition = (low candle > getValue (ema5 s1))
            in if gap_condition \<and> ema_condition
               then (False, s1\<lparr>first_candle := candle, first_candle_valid := True\<rparr>)
               else (False, s1))
         else if first_candle_valid s1 then
           (let breakdown = (low candle < low (first_candle s1))
            in if breakdown then (True, s1\<lparr>first_candle_valid := False\<rparr>)
               else (False, s1))
         else (False, s1))"

definition getEMA3 :: "TwoCandelPatternStrategy \<Rightarrow> real" where
  "getEMA3 s = getValue (ema3 s)"

definition getEMA5 :: "TwoCandelPatternStrategy \<Rightarrow> real" where
  "getEMA5 s = getValue (ema5 s)"

definition isEMA5Ready :: "TwoCandelPatternStrategy \<Rightarrow> bool" where
  "isEMA5Ready s = isInitialized (ema5 s)"

subsection \<open>Risk management\<close>

record RiskManager =
  initial_capital :: real
  current_capital :: real
  trades_today :: int
  stop_loss_amount :: real
  take_profit_amount :: real

definition STOP_LOSS_PCT :: "rounding \<Rightarrow> real" where
  "STOP_LOSS_PCT rnd = rnd 0.02"

definition TAKE_PROFIT_PCT :: "rounding \<Rightarrow> real" where
  "TAKE_PROFIT_PCT rnd = rnd 0.07"

definition MAX_DAILY_TRADES :: int where
  "MAX_DAILY_TRADES = 2"

definition new_RiskManager :: "rounding \<Rightarrow> real \<Rightarrow> RiskManager" where
  "new_RiskManager rnd cap =
     \<lparr>initial_capital = cap, current_capital = cap, trades_today = 0,
      stop_loss_amount = fmul rnd cap (STOP_LOSS_PCT rnd),
      take_profit_amount = fmul rnd cap (TAKE_PROFIT_PCT rnd)\<rparr>"

definition INT_MIN :: int where
  "INT_MIN = - 2147483648"

definition INT_MAX :: int where
  "INT_MAX = 2147483647"

text \<open>
  \<^verbatim>\<open>static_cast<int>\<close> of a \<^verbatim>\<open>double\<close> drops the fractional part (rounds toward zero); when
  the result does not fit an \<^verbatim>\<open>int\<close> the behaviour is undefined, which the model reports as
  \<open>UndefinedCast\<close>.
\<close>

definition static_cast_int :: "real \<Rightarrow> error + int" where
  "static_cast_int x =
     (let t = (if 0 \<le> x then \<lfloor>x\<rfloor> else \<lceil>x\<rceil>)
      in if INT_MIN \<le> t \<and> t \<le> INT_MAX then Inr t else Inl UndefinedCast)"

definition calculatePositionSize :: "rounding \<Rightarrow> RiskManager \<Rightarrow> real \<Rightarrow> error + int" where
  "calculatePositionSize rnd rm entry_price' =
     (if entry_price' \<le> 0 then Inr 0
      else static_cast_int (fdiv rnd (current_capital rm) entry_price'))"

definition canTrade :: "RiskManager \<Rightarrow> bool" where
  "canTrade rm = (trades_today rm < MAX_DAILY_TRADES)"

definition recordTrade :: "RiskManager \<Rightarrow> RiskManager" where
  "recordTrade rm = rm\<lparr>trades_today := trades_today rm + 1\<rparr>"

definition isStopLossHit :: "RiskManager \<Rightarrow> real \<Rightarrow> bool" where
  "isStopLossHit rm unrealized_pnl = (unrealized_pnl \<le> - stop_loss_amount rm)"

definition isTakeProfitHit :: "RiskManager \<Rightarrow> real \<Rightarrow> bool" where
  "isTakeProfitHit rm unrealized_pnl = (unrealized_pnl \<ge> take_profit_amount rm)"

definition updateCapital :: "rounding \<Rightarrow> RiskManager \<Rightarrow> real \<Rightarrow> RiskManager" where
  "updateCapital rnd rm p = rm\<lparr>current_capital := fadd rnd (current_capital rm) p\<rparr>"

definition getCurrentCapital :: "RiskManager \<Rightarrow> real" where
  "getCurrentCapital rm = current_capital rm"

definition getInitialCapital :: "RiskManager \<Rightarrow> real" where
  "getInitialCapital rm = initial_capital rm"

definition getTotalPnL :: "rounding \<Rightarrow> RiskManager \<Rightarrow> real" where
  "getTotalPnL rnd rm = fsub rnd (current_capital rm) (initial_capital rm)"

definition getTotalPnLPercent :: "rounding \<Rightarrow> RiskManager \<Rightarrow> real" where
  "getTotalPnLPercent rnd rm =
     fmul rnd (fdiv rnd (fsub rnd (current_capital rm) (initial_capital rm)) (initial_capital rm))
       100"

definition getTradesCount :: "RiskManager \<Rightarrow> int" where
  "getTradesCount rm = trades_today rm"

definition getStopLossAmount :: "RiskManager \<Rightarrow> real" where
  "getStopLossAmount rm = stop_loss_amount rm"

definition getTakeProfitAmount :: "RiskManager \<Rightarrow> real" where
  "getTakeProfitAmount rm = take_profit_amount rm"

subsection \<open>Reading the time of a candle\<close>

text \<open>
  \<^verbatim>\<open>std::string::substr(pos, n)\<close> throws \<^verbatim>\<open>std::out_of_range\<close> when \<open>pos\<close> is beyond the end of the
  string. \<^verbatim>\<open>std::stoi\<close> skips leading white space, reads an optional sign and then decimal
  digits up to the first character that is not one; it throws \<^verbatim>\<open>std::invalid_argument\<close> when
  there is no digit and \<^verbatim>\<open>std::out_of_range\<close> when the number does not fit an \<^verbatim>\<open>int\<close>.
\<close>

definition substr :: "string \<Rightarrow> nat \<Rightarrow> nat \<Rightarrow> error + string" where
  "substr str pos n = (if pos > length str then Inl OutOfRange else Inr (take n (drop pos str)))"

definition isspace :: "char \<Rightarrow> bool" where
  "isspace c = ((of_char c :: nat) = 32 \<or> (9 \<le> (of_char c :: nat) \<and> (of_char c :: nat) \<le> 13))"

definition isdigit :: "char \<Rightarrow> bool" where
  "isdigit c = (48 \<le> (of_char c :: nat) \<and> (of_char c :: nat) \<le> 57)"

definition digits_value :: "string \<Rightarrow> int" where
  "digits_value ds = foldl (\<lambda>acc c. acc * 10 + (of_char c - 48)) 0 ds"

definition stoi :: "string \<Rightarrow> error + int" where
  "stoi str =
     (let s1 = dropWhile isspace str;
          neg = (s1 \<noteq> [] \<and> hd s1 = CHR ''-'');
          s2 = (if s1 \<noteq> [] \<and> (hd s1 = CHR ''-'' \<or> hd s1 = CHR ''+'') then tl s1 else s1);
          ds = takeWhile isdigit s2
      in if ds = [] then Inl InvalidArgument
         else (let v = (if neg then - digits_value ds else digits_value ds)
               in if v < INT_MIN \<or> INT_MAX < v then Inl OutOfRange else Inr v))"

definition parseTimeToMinutes :: "string \<Rightarrow> error + int" where
  "parseTimeToMinutes time_str =
     (case substr time_str 0 2 of Inl err \<Rightarrow> Inl err | Inr hs \<Rightarrow>
      case stoi hs of Inl err \<Rightarrow> Inl err | Inr hours \<Rightarrow>
      case substr time_str 3 2 of Inl err \<Rightarrow> Inl err | Inr ms \<Rightarrow>
      case stoi ms of Inl err \<Rightarrow> Inl err | Inr minutes \<Rightarrow>
      Inr (hours * 60 + minutes))"

definition MARKET_CLOSE_TIME :: string where
  "MARKET_CLOSE_TIME = ''15:00''"

definition isPastMarketClose :: "string \<Rightarrow> error + bool" where
  "isPastMarketClose current_time =
     (case parseTimeToMinutes current_time of Inl err \<Rightarrow> Inl err | Inr now \<Rightarrow>
      case parseTimeToMinutes MARKET_CLOSE_TIME of Inl err \<Rightarrow> Inl err | Inr limit \<Rightarrow>
      Inr (now \<ge> limit))"

subsection \<open>Trading engine\<close>

record TradingEngine =
  market_data :: MarketData
  strategy :: TwoCandelPatternStrategy
  risk_manager :: RiskManager
  position :: Position
  trade_log :: "Trade list"
  current_candle_index :: nat
  session_active :: bool
  console :: "string list"

definition new_TradingEngine :: "rounding \<Rightarrow> MarketData \<Rightarrow> TradingEngine" where
  "new_TradingEngine rnd data =
     \<lparr>market_data = data, strategy = new_TwoCandelPatternStrategy rnd,
      risk_manager = new_RiskManager rnd (capital data), position = Position0,
      trade_log = [], current_candle_index = 0, session_active = True, console = []\<rparr>"

definition logMessage :: "TradingEngine \<Rightarrow> string \<Rightarrow> TradingEngine" where
  "logMessage e msg = e\<lparr>console := console e @ [msg]\<rparr>"

definition logExit :: "TradingEngine \<Rightarrow> Trade \<Rightarrow> string \<Rightarrow> TradingEngine" where
  "logExit e trade reason = e\<lparr>console := console e @ [reason]\<rparr>"

definition executeSellOrder ::
  "rounding \<Rightarrow> TradingEngine \<Rightarrow> Candle \<Rightarrow> error + TradingEngine" where
  "executeSellOrder rnd e candle =
     (if \<not> canTrade (risk_manager e)
      then Inr (logMessage e ''Trade limit reached for the day'')
      else if is_open (position e)
      then Inr (logMessage e ''Position already open - skipping signal'')
      else (let entry_price' = close candle
            in case calculatePositionSize rnd (risk_manager e) entry_price' of
                 Inl err \<Rightarrow> Inl err
               | Inr qty \<Rightarrow>
                   if qty \<le> 0 then Inr (logMessage e ''Insufficient capital for position'')
                   else Inr (e\<lparr>position := Position_open (position e) SELL entry_price' qty
                                               (Candle.timestamp candle),
                               risk_manager := recordTrade (risk_manager e),
                               trade_log := trade_log e @
                                 [\<lparr>Trade.timestamp = Candle.timestamp candle, Trade.side = SELL,
                                   type = ENTRY, price = entry_price', Trade.quantity = qty,
                                   pnl = 0\<rparr>]\<rparr>)))"

definition closePosition ::
  "rounding \<Rightarrow> TradingEngine \<Rightarrow> Candle \<Rightarrow> string \<Rightarrow> TradingEngine" where
  "closePosition rnd e candle reason =
     (if \<not> is_open (position e) then e
      else (let exit_price = close candle;
                p = getUnrealizedPnL rnd (position e) exit_price;
                exit_trade = \<lparr>Trade.timestamp = Candle.timestamp candle,
                              Trade.side = Position.side (position e), type = EXIT,
                              price = exit_price,
                              Trade.quantity = Position.quantity (position e), pnl = p\<rparr>;
                e1 = e\<lparr>risk_manager := updateCapital rnd (risk_manager e) p,
                       trade_log := trade_log e @ [exit_trade]\<rparr>;
                e2 = logExit e1 exit_trade reason
            in e2\<lparr>position := Position_close (position e2)\<rparr>))"

definition checkExitConditions ::
  "rounding \<Rightarrow> TradingEngine \<Rightarrow> Candle \<Rightarrow> error + TradingEngine" where
  "checkExitConditions rnd e candle =
     (if \<not> is_open (position e) then Inr e
      else (let unrealized_pnl = getUnrealizedPnL rnd (position e) (close candle)
            in if isStopLossHit (risk_manager e) unrealized_pnl
               then Inr (closePosition rnd e candle ''Stop Loss Hit'')
               else if isTakeProfitHit (risk_manager e) unrealized_pnl
               then Inr (closePosition rnd e candle ''Take Profit Hit'')
               else (case isPastMarketClose (Candle.timestamp candle) of
                       Inl err \<Rightarrow> Inl err
                     | Inr past \<Rightarrow>
                         if past
                         then Inr ((closePosition rnd e candle ''Market Close (15:00)'')
                                     \<lparr>session_active := False\<rparr>)
                         else Inr e)))"

text \<open>
  The body of the loop of \<^verbatim>\<open>run\<close>, after the test of \<^verbatim>\<open>session_active_\<close>: the strategy sees
  the candle, then the exit conditions are checked, then the signal is acted on.
\<close>

definition run_step :: "rounding \<Rightarrow> TradingEngine \<Rightarrow> Candle \<Rightarrow> error + TradingEngine" where
  "run_step rnd e candle =
     (case processCandle rnd (strategy e) candle of (signal, st) \<Rightarrow>
        (case checkExitConditions rnd (e\<lparr>strategy := st\<rparr>) candle of
           Inl err \<Rightarrow> Inl err
         | Inr e2 \<Rightarrow>
             if signal \<and> session_active e2 then executeSellOrder rnd e2 candle else Inr e2))"

text \<open>The loop of \<^verbatim>\<open>run\<close> over the candles; \<^verbatim>\<open>break\<close> leaves the rest of the list unread.\<close>

fun run_loop :: "rounding \<Rightarrow> TradingEngine \<Rightarrow> Candle list \<Rightarrow> error + TradingEngine" where
  "run_loop rnd e [] = Inr e"
| "run_loop rnd e (candle # rest) =
     (if \<not> session_active e then Inr e
      else (case run_step rnd e candle of
              Inl err \<Rightarrow> Inl err
            | Inr e' \<Rightarrow> run_loop rnd e' rest))"

definition run :: "rounding \<Rightarrow> TradingEngine \<Rightarrow> error + TradingEngine" where
  "run rnd e =
     (let e0 = e\<lparr>strategy := initialize (strategy e)
                                (MarketData.previous_day_close (market_data e))\<rparr>
      in case run_loop rnd e0 (candles (market_data e0)) of
           Inl err \<Rightarrow> Inl err
         | Inr e1 \<Rightarrow>
             if is_open (position e1) \<and> candles (market_data e1) \<noteq> []
             then Inr (closePosition rnd e1 (last (candles (market_data e1)))
                         ''End of Market Data'')
             else Inr e1)"

text \<open>What \<^verbatim>\<open>printSummary\<close> prints, as a value.\<close>

record Summary =
  sum_instrument :: string
  sum_total_trades :: int
  sum_initial_capital :: real
  sum_final_capital :: real
  sum_total_pnl :: real
  sum_return :: real
  sum_trade_log :: "Trade list"

definition printSummary :: "rounding \<Rightarrow> TradingEngine \<Rightarrow> Summary" where
  "printSummary rnd e =
     \<lparr>sum_instrument = instrument (market_data e),
      sum_total_trades = getTradesCount (risk_manager e),
      sum_initial_capital = getInitialCapital (risk_manager e),
      sum_final_capital = getCurrentCapital (risk_manager e),
      sum_total_pnl = getTotalPnL rnd (risk_manager e),
      sum_return = getTotalPnLPercent rnd (risk_manager e),
      sum_trade_log = trade_log e\<rparr>"

text \<open>\<^verbatim>\<open>simulateLiveDataFeed\<close> of \<^verbatim>\<open>main.cpp\<close>: a fresh engine on the data, run once.\<close>

definition simulateLiveDataFeed :: "rounding \<Rightarrow> MarketData \<Rightarrow> error + TradingEngine" where
  "simulateLiveDataFeed rnd data = run rnd (new_TradingEngine rnd data)"

subsection \<open>Notions used in the properties\<close>

text \<open>
  The log of well-formed sessions: an ENTRY, its EXIT, an ENTRY, its EXIT, and so on, the
  last ENTRY possibly still without its EXIT. Each pair is a short sale: both records are on
  the SELL side with the same positive quantity, the entry carries no PnL, and the exit
  realises (entry price - exit price) * quantity, in double arithmetic.
\<close>

fun log_paired :: "rounding \<Rightarrow> Trade list \<Rightarrow> bool" where
  "log_paired rnd [] = True"
| "log_paired rnd [t] =
     (type t = ENTRY \<and> Trade.side t = SELL \<and> Trade.quantity t > 0 \<and> pnl t = 0)"
| "log_paired rnd (t1 # t2 # ts) =
     (type t1 = ENTRY \<and> Trade.side t1 = SELL \<and> Trade.quantity t1 > 0 \<and> pnl t1 = 0
      \<and> type t2 = EXIT \<and> Trade.side t2 = SELL \<and> Trade.quantity t2 = Trade.quantity t1
      \<and> pnl t2 = fmul rnd (fsub rnd (price t1) (price t2)) (of_int (Trade.quantity t1))
      \<and> log_paired rnd ts)"

text \<open>The realised PnLs of a log: those of its EXIT records, in order.\<close>

definition realized :: "Trade list \<Rightarrow> real list" where
  "realized ts = map pnl (filter (\<lambda>t. type t = EXIT) ts)"

text \<open>
  The engine and its log agree: the position is open exactly when the last ENTRY has no
  EXIT yet, and then it is that entry; the capital is the initial capital plus the PnLs of
  realised PnLs of the log, added in order; the trade counter counts the entries and is at most the daily
  cap.
\<close>

definition engine_inv :: "rounding \<Rightarrow> TradingEngine \<Rightarrow> bool" where
  "engine_inv rnd e =
     (log_paired rnd (trade_log e)
      \<and> is_open (position e) = odd (length (trade_log e))
      \<and> (is_open (position e) \<longrightarrow>
            Position.side (position e) = SELL
          \<and> Position.quantity (position e) = Trade.quantity (last (trade_log e))
          \<and> entry_price (position e) = price (last (trade_log e)))
      \<and> current_capital (risk_manager e)
          = foldl (fadd rnd) (initial_capital (risk_manager e)) (realized (trade_log e))
      \<and> trades_today (risk_manager e) = int (length (filter (\<lambda>t. type t = ENTRY) (trade_log e)))
      \<and> trades_today (risk_manager e) \<le> MAX_DAILY_TRADES)"

text \<open>What a session never changes: the market data and the thresholds of the risk manager.\<close>

definition config_unchanged :: "TradingEngine \<Rightarrow> TradingEngine \<Rightarrow> bool" where
  "config_unchanged e e' =
     (market_data e' = market_data e
      \<and> initial_capital (risk_manager e') = initial_capital (risk_manager e)
      \<and> stop_loss_amount (risk_manager e') = stop_loss_amount (risk_manager e)
      \<and> take_profit_amount (risk_manager e') = take_profit_amount (risk_manager e))"

text \<open>
  The engine as the loop of \<^verbatim>\<open>run\<close> finds it: freshly constructed on the data, the strategy
  initialised with the previous day's close.
\<close>

definition session_start :: "rounding \<Rightarrow> MarketData \<Rightarrow> TradingEngine" where
  "session_start rnd md = (new_TradingEngine rnd md)\<lparr>strategy :=
       initialize (new_TwoCandelPatternStrategy rnd) (MarketData.previous_day_close md)\<rparr>"

text \<open>What one step of the loop appends to the trade log and to the console.\<close>

definition new_trades :: "TradingEngine \<Rightarrow> TradingEngine \<Rightarrow> Trade list" where
  "new_trades e e' = drop (length (trade_log e)) (trade_log e')"

definition new_console :: "TradingEngine \<Rightarrow> TradingEngine \<Rightarrow> string list" where
  "new_console e e' = drop (length (console e)) (console e')"

text \<open>
  The exit rule in the words of the specification, for comparison with
  \<open>checkExitConditions\<close>: with a position open the exit conditions are taken in the order
  stop-loss, take-profit, market-close cutoff, and the first that holds decides.
\<close>

datatype exit_kind = NoExit | ExitSL | ExitTP | ExitTime

definition spec_exit :: "rounding \<Rightarrow> TradingEngine \<Rightarrow> Candle \<Rightarrow> exit_kind" where
  "spec_exit rnd e c =
     (if \<not> is_open (position e) then NoExit
      else if isStopLossHit (risk_manager e) (getUnrealizedPnL rnd (position e) (close c))
      then ExitSL
      else if isTakeProfitHit (risk_manager e) (getUnrealizedPnL rnd (position e) (close c))
      then ExitTP
      else if isPastMarketClose (Candle.timestamp c) = Inr True then ExitTime
      else NoExit)"

subsection \<open>Example sessions\<close>

text \<open>
  Four candles after a previous close of 100: a flat candle, a gap-up candle that holds above
  the EMA(5), a candle that breaks its low, and a last candle.
\<close>

definition demo_candles :: "Candle list" where
  "demo_candles =
     [\<lparr>Candle.timestamp = ''09:15'', open_c = 100, high = 100, low = 100, close = 100\<rparr>,
      \<lparr>Candle.timestamp = ''09:20'', open_c = 104, high = 105, low = 102, close = 103\<rparr>,
      \<lparr>Candle.timestamp = ''09:25'', open_c = 103, high = 103, low = 101, close = 101\<rparr>,
      \<lparr>Candle.timestamp = ''09:30'', open_c = 101, high = 101, low = 100, close = 100\<rparr>]"

definition demo_data :: MarketData where
  "demo_data = \<lparr>instrument = ''DEMO'', MarketData.previous_day_close = 100,
                 capital = 100000, candles = demo_candles\<rparr>"

text \<open>
  A second session: the short position of the third candle is stopped out on the fifth
  candle, at 15:00, which also breaks the low of the fourth.
\<close>

definition whipsaw_candles :: "Candle list" where
  "whipsaw_candles =
     [\<lparr>Candle.timestamp = ''14:40'', open_c = 100, high = 100, low = 100, close = 100\<rparr>,
      \<lparr>Candle.timestamp = ''14:45'', open_c = 104, high = 105, low = 102, close = 103\<rparr>,
      \<lparr>Candle.timestamp = ''14:50'', open_c = 103, high = 103, low = 101, close = 101\<rparr>,
      \<lparr>Candle.timestamp = ''14:55'', open_c = 104, high = 104, low = 103, close = 103\<rparr>,
      \<lparr>Candle.timestamp = ''15:00'', open_c = 103, high = 106, low = 102, close = 104\<rparr>]"

definition whipsaw_data :: MarketData where
  "whipsaw_data = \<lparr>instrument = ''DEMO'', MarketData.previous_day_close = 100,
                    capital = 100000, candles = whipsaw_candles\<rparr>"

text \<open>A third session, the example session moved to the end of the day.\<close>

definition late_candles :: "Candle list" where
  "late_candles =
     [\<lparr>Candle.timestamp = ''14:55'', open_c = 100, high = 100, low = 100, close = 100\<rparr>,
      \<lparr>Candle.timestamp = ''15:00'', open_c = 104, high = 105, low = 102, close = 103\<rparr>,
      \<lparr>Candle.timestamp = ''15:05'', open_c = 103, high = 103, low = 101, close = 101\<rparr>,
      \<lparr>Candle.timestamp = ''15:10'', open_c = 101, high = 101, low = 100, close = 100\<rparr>,
      \<lparr>Candle.timestamp = ''15:15'', open_c = 100, high = 100, low = 100, close = 100\<rparr>]"

definition late_data :: MarketData where
  "late_data = \<lparr>instrument = ''DEMO'', MarketData.previous_day_close = 100,
                 capital = 100000, candles = late_candles\<rparr>"

section \<open>Properties\<close>

lemmas time_defs = parseTimeToMinutes_def substr_def stoi_def isspace_def isdigit_def digits_value_def
  INT_MIN_def INT_MAX_def isPastMarketClose_def MARKET_CLOSE_TIME_def

lemmas engine_defs = run_def run_step_def new_TradingEngine_def new_TwoCandelPatternStrategy_def
  new_EMACalculator_def new_RiskManager_def Position0_def Candle0_def initialize_def reset_def
  processCandle_def update_def isInitialized_def getValue_def GAP_THRESHOLD_def
  checkExitConditions_def closePosition_def executeSellOrder_def canTrade_def MAX_DAILY_TRADES_def
  calculatePositionSize_def static_cast_int_def recordTrade_def Position_open_def Position_close_def
  getUnrealizedPnL_def isStopLossHit_def isTakeProfitHit_def updateCapital_def
  STOP_LOSS_PCT_def TAKE_PROFIT_PCT_def logMessage_def logExit_def simulateLiveDataFeed_def

subsection \<open>Rounding to the nearest double\<close>

lemma pow2_powr: "pow2 k = 2 powr (of_int k)"
proof (cases "0 \<le> k")
  case True
  then have "(2::real) powr (of_int k) = 2 ^ nat k"
    by (metis powr_realpow of_nat_nat zero_less_numeral)
  with True show ?thesis by (simp add: pow2_def)
next
  case False
  then have "0 \<le> - k" by simp
  then have "(2::real) powr (of_int (- k)) = 2 ^ nat (- k)"
    by (metis powr_realpow of_nat_nat zero_less_numeral)
  moreover have "(2::real) powr (of_int k) = inverse (2 powr (of_int (- k)))"
    by (simp add: powr_minus)
  ultimately have "(2::real) powr (of_int k) = 1 / 2 ^ nat (- k)"
    by (simp add: inverse_eq_divide)
  with False show ?thesis by (simp add: pow2_def)
qed

text \<open>How a value of \<open>binary64\<close> is computed once the binary exponent of the argument is known.\<close>

lemma binary64_eqI:
  assumes "x \<noteq> 0" and "- 1022 \<le> e" and "pow2 e \<le> \<bar>x\<bar>" and "\<bar>x\<bar> < pow2 (e + 1)"
    and "round_even (x / pow2 (e - 52)) = m" and "of_int m * pow2 (e - 52) = y"
  shows "binary64 x = y"
proof -
  from assms(1) have "0 < \<bar>x\<bar>" by simp
  moreover from assms(3,4) have "2 powr (of_int e) \<le> \<bar>x\<bar> \<and> \<bar>x\<bar> < 2 powr (of_int e + 1)"
    by (simp add: pow2_powr)
  ultimately have "\<lfloor>log 2 \<bar>x\<bar>\<rfloor> = e"
    by (simp add: floor_log_eq_powr_iff)
  with assms show ?thesis by (simp add: binary64_def expo_def Let_def max_def)
qed

lemma binary64_0: "binary64 0 = 0"
  by (simp add: binary64_def)

text \<open>Rounding to the nearest double is monotone on the numbers that are not negative.\<close>

lemma pow2_pos: "0 < pow2 k"
  by (simp add: pow2_powr)

lemma pow2_add: "pow2 (a + b) = pow2 a * pow2 b"
  by (simp add: pow2_powr powr_add)

lemma pow2_mono: "a \<le> b \<Longrightarrow> pow2 a \<le> pow2 b"
  by (simp add: pow2_powr)

lemma round_even_lower: "\<lfloor>x\<rfloor> \<le> round_even x"
  by (simp add: round_even_def Let_def)

lemma round_even_upper: "round_even x \<le> \<lfloor>x\<rfloor> + 1"
  by (simp add: round_even_def Let_def)

lemma round_even_int: "round_even (of_int n) = n"
  by (simp add: round_even_def Let_def)

lemma round_even_mono:
  assumes "x \<le> y"
  shows "round_even x \<le> round_even y"
proof (cases "\<lfloor>x\<rfloor> = \<lfloor>y\<rfloor>")
  case True
  with assms show ?thesis
    by (auto simp: round_even_def Let_def)
next
  case False
  with assms have "\<lfloor>x\<rfloor> < \<lfloor>y\<rfloor>" by (simp add: floor_mono order.strict_iff_order)
  then have "\<lfloor>x\<rfloor> + 1 \<le> \<lfloor>y\<rfloor>" by simp
  with round_even_upper [of x] round_even_lower [of y] show ?thesis by linarith
qed

lemma round_even_le_int:
  assumes "x \<le> of_int n"
  shows "round_even x \<le> n"
  using round_even_mono [OF assms] by (simp add: round_even_int)

lemma round_even_ge_int:
  assumes "of_int n \<le> x"
  shows "n \<le> round_even x"
  using round_even_mono [OF assms] by (simp add: round_even_int)

lemma binary64_expo:
  "x \<noteq> 0 \<Longrightarrow> binary64 x = of_int (round_even (x / pow2 (expo x - 52))) * pow2 (expo x - 52)"
  by (simp add: binary64_def Let_def)

lemma expo_upper:
  assumes "0 < x"
  shows "x < pow2 (expo x + 1)"
proof -
  from assms have "x < 2 powr (of_int \<lfloor>log 2 x\<rfloor> + 1)"
    using floor_log_eq_powr_iff [of x 2 "\<lfloor>log 2 x\<rfloor>"] by simp
  then have "x < pow2 (\<lfloor>log 2 x\<rfloor> + 1)" by (simp add: pow2_powr)
  also from assms have "\<dots> \<le> pow2 (expo x + 1)" by (intro pow2_mono) (simp add: expo_def)
  finally show ?thesis .
qed

lemma expo_lower:
  assumes "0 < x" and "- 1022 < expo x"
  shows "pow2 (expo x) \<le> x"
proof -
  from assms have e: "expo x = \<lfloor>log 2 x\<rfloor>" by (simp add: expo_def max_def split: if_splits)
  from assms(1) have "2 powr (of_int \<lfloor>log 2 x\<rfloor>) \<le> x"
    using floor_log_eq_powr_iff [of x 2 "\<lfloor>log 2 x\<rfloor>"] by simp
  with e show ?thesis by (simp add: pow2_powr)
qed

lemma expo_mono:
  assumes "0 < x" and "x \<le> y"
  shows "expo x \<le> expo y"
proof -
  from assms have "log 2 x \<le> log 2 y" by simp
  then have "\<lfloor>log 2 x\<rfloor> \<le> \<lfloor>log 2 y\<rfloor>" by (rule floor_mono)
  with assms show ?thesis by (simp add: expo_def)
qed

lemma binary64_upper:
  assumes "0 < x"
  shows "binary64 x \<le> pow2 (expo x + 1)"
proof -
  let ?u = "pow2 (expo x - 52)"
  have u: "0 < ?u" by (rule pow2_pos)
  have split: "pow2 (expo x + 1) = pow2 53 * ?u"
  proof -
    have "pow2 (53 + (expo x - 52)) = pow2 53 * ?u" by (rule pow2_add)
    moreover have "53 + (expo x - 52) = expo x + 1" by simp
    ultimately show ?thesis by (simp only:)
  qed
  have p53: "pow2 53 = of_int (2 ^ 53)" by (simp add: pow2_def)
  from expo_upper [OF assms] split have "x < pow2 53 * ?u" by simp
  with u have "x / ?u < pow2 53" by (simp add: pos_divide_less_eq)
  then have "x / ?u \<le> of_int (2 ^ 53)" unfolding p53 by simp
  then have "round_even (x / ?u) \<le> 2 ^ 53" by (rule round_even_le_int)
  then have "(of_int (round_even (x / ?u)) :: real) \<le> of_int (2 ^ 53)" by (simp only: of_int_le_iff)
  with u have "of_int (round_even (x / ?u)) * ?u \<le> of_int (2 ^ 53) * ?u"
    by (simp add: mult_right_mono)
  with assms show ?thesis by (simp add: binary64_expo split p53)
qed

lemma binary64_lower:
  assumes "0 < x" and "- 1022 < expo x"
  shows "pow2 (expo x) \<le> binary64 x"
proof -
  let ?u = "pow2 (expo x - 52)"
  have u: "0 < ?u" by (rule pow2_pos)
  have split: "pow2 (expo x) = pow2 52 * ?u"
  proof -
    have "pow2 (52 + (expo x - 52)) = pow2 52 * ?u" by (rule pow2_add)
    then show ?thesis by simp
  qed
  have p52: "pow2 52 = of_int (2 ^ 52)" by (simp add: pow2_def)
  from expo_lower [OF assms] split have "pow2 52 * ?u \<le> x" by simp
  with u have "pow2 52 \<le> x / ?u" by (simp add: pos_le_divide_eq)
  then have "of_int (2 ^ 52) \<le> x / ?u" unfolding p52 by simp
  then have "2 ^ 52 \<le> round_even (x / ?u)" by (rule round_even_ge_int)
  then have "(of_int (2 ^ 52) :: real) \<le> of_int (round_even (x / ?u))" by (simp only: of_int_le_iff)
  with u have "of_int (2 ^ 52) * ?u \<le> of_int (round_even (x / ?u)) * ?u"
    by (simp add: mult_right_mono)
  with assms show ?thesis by (simp add: binary64_expo split p52)
qed

lemma binary64_nonneg:
  assumes "0 \<le> x"
  shows "0 \<le> binary64 x"
proof (cases "x = 0")
  case True then show ?thesis by (simp add: binary64_0)
next
  case False
  let ?u = "pow2 (expo x - 52)"
  have u: "0 < ?u" by (rule pow2_pos)
  with assms have "of_int 0 \<le> x / ?u" by simp
  then have "0 \<le> round_even (x / ?u)" by (rule round_even_ge_int)
  with u False show ?thesis by (simp add: binary64_expo)
qed

lemma binary64_mono_nonneg:
  assumes "0 \<le> x" and "x \<le> y"
  shows "binary64 x \<le> binary64 y"
proof (cases "x = 0")
  case True
  with assms binary64_nonneg [of y] show ?thesis by (simp add: binary64_0)
next
  case False
  with assms have x: "0 < x" and y: "0 < y" by simp_all
  from x assms(2) have le: "expo x \<le> expo y" by (rule expo_mono)
  show ?thesis
  proof (cases "expo x = expo y")
    case True
    let ?u = "pow2 (expo y - 52)"
    have u: "0 < ?u" by (rule pow2_pos)
    with assms(2) have "x / ?u \<le> y / ?u" by (simp add: divide_right_mono)
    then have "round_even (x / ?u) \<le> round_even (y / ?u)" by (rule round_even_mono)
    then have "(of_int (round_even (x / ?u)) :: real) \<le> of_int (round_even (y / ?u))" by simp
    with u have "of_int (round_even (x / ?u)) * ?u \<le> of_int (round_even (y / ?u)) * ?u"
      by (simp add: mult_right_mono)
    with x y True show ?thesis by (simp add: binary64_expo)
  next
    case False
    with le have lt: "expo x < expo y" by simp
    moreover have "- 1022 \<le> expo x" by (simp add: expo_def)
    ultimately have "- 1022 < expo y" by simp
    with y have "pow2 (expo y) \<le> binary64 y" by (rule binary64_lower)
    moreover from lt have "pow2 (expo x + 1) \<le> pow2 (expo y)" by (intro pow2_mono) simp
    moreover from x have "binary64 x \<le> pow2 (expo x + 1)" by (rule binary64_upper)
    ultimately show ?thesis by linarith
  qed
qed

lemmas fp_defs = fadd_def fsub_def fmul_def fdiv_def

subsection \<open>The EMA calculator\<close>

lemma update_initialized: "initialized (update rnd e x)"
  by (simp add: update_def)

lemma update_multiplier: "multiplier (update rnd e x) = multiplier e"
  by (simp add: update_def)

lemma foldl_update_multiplier: "multiplier (foldl (update rnd) e xs) = multiplier e"
  by (induction xs arbitrary: e) (simp_all add: update_multiplier)

lemma foldl_update_initialized: "initialized e \<Longrightarrow> initialized (foldl (update rnd) e xs)"
  by (induction xs arbitrary: e) (simp_all add: update_initialized)

lemma foldl_update_Cons_initialized: "initialized (foldl (update rnd) e (x # xs))"
  by (simp add: foldl_update_initialized update_initialized)

subsection \<open>The trade log and the position\<close>

lemma log_paired_snoc_entry:
  "log_paired rnd xs \<Longrightarrow> even (length xs) \<Longrightarrow> type t = ENTRY \<Longrightarrow> Trade.side t = SELL
   \<Longrightarrow> Trade.quantity t > 0 \<Longrightarrow> pnl t = 0 \<Longrightarrow> log_paired rnd (xs @ [t])"
  by (induction rnd xs rule: log_paired.induct) simp_all

lemma log_paired_snoc_exit:
  "log_paired rnd xs \<Longrightarrow> odd (length xs) \<Longrightarrow> type t = EXIT \<Longrightarrow> Trade.side t = SELL
   \<Longrightarrow> Trade.quantity t = Trade.quantity (last xs)
   \<Longrightarrow> pnl t = fmul rnd (fsub rnd (price (last xs)) (price t)) (of_int (Trade.quantity (last xs)))
   \<Longrightarrow> log_paired rnd (xs @ [t])"
proof (induction rnd xs rule: log_paired.induct)
  case (3 rnd t1 t2 ts)
  from "3.prems" have "ts \<noteq> []" by auto
  with 3 show ?case by simp
qed simp_all

lemma log_paired_last_entry:
  "log_paired rnd xs \<Longrightarrow> odd (length xs) \<Longrightarrow> type (last xs) = ENTRY \<and> Trade.quantity (last xs) > 0"
proof (induction rnd xs rule: log_paired.induct)
  case (3 rnd t1 t2 ts)
  from "3.prems" have "ts \<noteq> []" by auto
  with 3 show ?case by simp
qed simp_all

lemma inv_new: "engine_inv rnd (new_TradingEngine rnd md)"
  by (simp add: engine_inv_def new_TradingEngine_def Position0_def new_RiskManager_def
      MAX_DAILY_TRADES_def realized_def)

lemma inv_strategy [simp]: "engine_inv rnd (e\<lparr>strategy := s\<rparr>) = engine_inv rnd e"
  by (simp add: engine_inv_def)

lemma inv_session [simp]: "engine_inv rnd (e\<lparr>session_active := b\<rparr>) = engine_inv rnd e"
  by (simp add: engine_inv_def)

lemma inv_logMessage [simp]: "engine_inv rnd (logMessage e m) = engine_inv rnd e"
  by (simp add: engine_inv_def logMessage_def)

lemma inv_closePosition:
  assumes "engine_inv rnd e"
  shows "engine_inv rnd (closePosition rnd e c r)
       \<and> \<not> is_open (position (closePosition rnd e c r))"
proof (cases "is_open (position e)")
  case False
  with assms show ?thesis by (simp add: closePosition_def)
next
  case True
  let ?t = "\<lparr>Trade.timestamp = Candle.timestamp c,
                              Trade.side = Position.side (position e), type = EXIT,
                              price = close c,
                              Trade.quantity = Position.quantity (position e), pnl = getUnrealizedPnL rnd (position e) (close c)\<rparr>"
  from True assms have odd: "odd (length (trade_log e))" and lp: "log_paired rnd (trade_log e)"
    and sd: "Position.side (position e) = SELL"
    and q: "Position.quantity (position e) = Trade.quantity (last (trade_log e))"
    and pr: "entry_price (position e) = price (last (trade_log e))"
    by (simp_all add: engine_inv_def)
  have "log_paired rnd (trade_log e @ [?t])"
    using lp odd by (rule log_paired_snoc_exit) (simp_all add: sd q pr getUnrealizedPnL_def True)
  moreover have "filter (\<lambda>t. type t = ENTRY) (trade_log e @ [?t]) = filter (\<lambda>t. type t = ENTRY) (trade_log e)"
    by simp
  ultimately show ?thesis using True assms odd
    by (simp add: closePosition_def Let_def engine_inv_def logExit_def Position_close_def
        updateCapital_def realized_def)
qed

lemma inv_checkExit:
  "engine_inv rnd e \<Longrightarrow> checkExitConditions rnd e c = Inr e' \<Longrightarrow> engine_inv rnd e'"
  by (auto simp: checkExitConditions_def Let_def inv_closePosition split: if_splits sum.splits)

lemma inv_executeSellOrder:
  assumes "engine_inv rnd e" and "executeSellOrder rnd e c = Inr e'"
  shows "engine_inv rnd e'"
proof (cases "canTrade (risk_manager e) \<and> \<not> is_open (position e)")
  case False
  with assms show ?thesis by (auto simp: executeSellOrder_def split: if_splits)
next
  case True
  show ?thesis
  proof (cases "calculatePositionSize rnd (risk_manager e) (close c)")
    case (Inl err)
    with True assms show ?thesis by (simp add: executeSellOrder_def)
  next
    case (Inr q)
    show ?thesis
    proof (cases "q \<le> 0")
      case True
      with \<open>canTrade (risk_manager e) \<and> \<not> is_open (position e)\<close> Inr assms show ?thesis
        by (auto simp: executeSellOrder_def)
    next
      case False
      let ?t = "\<lparr>Trade.timestamp = Candle.timestamp c, Trade.side = SELL,
                                   type = ENTRY, price = close c, Trade.quantity = q,
                                   pnl = 0\<rparr>"
      from True assms(1) have ev: "even (length (trade_log e))" and lp: "log_paired rnd (trade_log e)"
        by (simp_all add: engine_inv_def)
      have "log_paired rnd (trade_log e @ [?t])"
        using lp ev by (rule log_paired_snoc_entry) (use False in simp_all)
      then show ?thesis using True Inr False assms ev
        by (auto simp: executeSellOrder_def Let_def engine_inv_def Position_open_def
            recordTrade_def canTrade_def realized_def)
    qed
  qed
qed

lemma inv_run_step: "engine_inv rnd e \<Longrightarrow> run_step rnd e c = Inr e' \<Longrightarrow> engine_inv rnd e'"
  by (auto simp: run_step_def split: prod.splits sum.splits if_splits
      dest: inv_checkExit [rotated] inv_executeSellOrder [rotated])

lemma inv_run_loop: "engine_inv rnd e \<Longrightarrow> run_loop rnd e cs = Inr e' \<Longrightarrow> engine_inv rnd e'"
proof (induction cs arbitrary: e)
  case Nil then show ?case by simp
next
  case (Cons c cs)
  then show ?case
    by (auto split: if_splits sum.splits dest: inv_run_step)
qed

lemma log_paired_nth_type:
  "log_paired rnd xs \<Longrightarrow> i < length xs \<Longrightarrow> (type (xs ! i) = ENTRY) = even i"
proof (induction rnd xs arbitrary: i rule: log_paired.induct)
  case 1 then show ?case by simp
next
  case (2 rnd t) then show ?case by simp
next
  case (3 rnd t1 t2 ts)
  show ?case
  proof (cases i)
    case 0 with 3 show ?thesis by simp
  next
    case (Suc j)
    show ?thesis
    proof (cases j)
      case 0 with Suc 3 show ?thesis by simp
    next
      case (Suc k)
      with \<open>i = Suc j\<close> 3 show ?thesis by simp
    qed
  qed
qed

lemma log_paired_nth_pair:
  "log_paired rnd xs \<Longrightarrow> even i \<Longrightarrow> Suc i < length xs \<Longrightarrow>
     Trade.side (xs ! i) = SELL \<and> Trade.side (xs ! Suc i) = SELL
   \<and> 0 < Trade.quantity (xs ! i) \<and> Trade.quantity (xs ! Suc i) = Trade.quantity (xs ! i)
   \<and> pnl (xs ! i) = 0
   \<and> pnl (xs ! Suc i)
       = fmul rnd (fsub rnd (price (xs ! i)) (price (xs ! Suc i))) (of_int (Trade.quantity (xs ! i)))"
proof (induction rnd xs arbitrary: i rule: log_paired.induct)
  case 1 then show ?case by simp
next
  case (2 rnd t) then show ?case by simp
next
  case (3 rnd t1 t2 ts)
  show ?case
  proof (cases i)
    case 0 with 3 show ?thesis by simp
  next
    case (Suc j)
    show ?thesis
    proof (cases j)
      case 0 with Suc 3 show ?thesis by simp
    next
      case (Suc k)
      with \<open>i = Suc j\<close> 3 show ?thesis by simp
    qed
  qed
qed

lemma foldl_plus_sum_list: "foldl (+) (a::real) xs = a + sum_list xs"
  by (induction xs arbitrary: a) simp_all

lemma foldl_fadd_exact: "foldl (fadd (\<lambda>x. x)) a xs = a + sum_list xs"
  by (induction xs arbitrary: a) (simp_all add: fadd_def)

lemma log_paired_realized_sum:
  "log_paired rnd xs \<Longrightarrow> sum_list (realized xs) = sum_list (map pnl xs)"
  by (induction rnd xs rule: log_paired.induct) (simp_all add: realized_def)

lemma log_paired_exit:
  assumes "log_paired rnd xs" "i < length xs" "type (xs ! i) = EXIT"
  shows "0 < i \<and> type (xs ! (i - 1)) = ENTRY \<and> Trade.side (xs ! i) = SELL
       \<and> Trade.quantity (xs ! i) = Trade.quantity (xs ! (i - 1))
       \<and> pnl (xs ! i)
           = fmul rnd (fsub rnd (price (xs ! (i - 1))) (price (xs ! i)))
               (of_int (Trade.quantity (xs ! i)))"
proof -
  from assms log_paired_nth_type [of rnd xs i] have oi: "odd i" by auto
  then obtain j where j: "i = Suc j" "even j" by (cases i) auto
  with assms have "j < length xs" by simp
  with assms(1) j have "type (xs ! j) = ENTRY" by (simp add: log_paired_nth_type)
  moreover from log_paired_nth_pair [OF assms(1) j(2)] assms(2) j(1)
  have "Trade.side (xs ! Suc j) = SELL \<and> Trade.quantity (xs ! Suc j) = Trade.quantity (xs ! j)
     \<and> pnl (xs ! Suc j)
         = fmul rnd (fsub rnd (price (xs ! j)) (price (xs ! Suc j))) (of_int (Trade.quantity (xs ! j)))"
    by simp
  ultimately show ?thesis using j by simp
qed

lemma log_paired_no_double_entry:
  assumes "log_paired rnd xs" "Suc i < length xs"
  shows "\<not> (type (xs ! i) = ENTRY \<and> type (xs ! Suc i) = ENTRY)"
  using assms log_paired_nth_type [of rnd xs i] log_paired_nth_type [of rnd xs "Suc i"] by auto

lemma log_paired_counts:
  "log_paired rnd xs \<Longrightarrow>
     length (filter (\<lambda>t. type t = ENTRY) xs)
   = length (filter (\<lambda>t. type t = EXIT) xs) + (if odd (length xs) then 1 else 0)"
  by (induction rnd xs rule: log_paired.induct) auto

subsection \<open>What a session leaves unchanged\<close>

lemma config_refl: "config_unchanged e e"
  by (simp add: config_unchanged_def)

lemma config_trans: "config_unchanged e e1 \<Longrightarrow> config_unchanged e1 e2 \<Longrightarrow> config_unchanged e e2"
  by (simp add: config_unchanged_def)

lemma config_closePosition: "config_unchanged e (closePosition rnd e c r)"
  by (simp add: config_unchanged_def closePosition_def Let_def logExit_def updateCapital_def)

lemma config_checkExit: "checkExitConditions rnd e c = Inr e' \<Longrightarrow> config_unchanged e e'"
  using config_closePosition [of e rnd c]
  by (auto simp: checkExitConditions_def Let_def config_unchanged_def split: if_splits sum.splits)

lemma config_executeSellOrder: "executeSellOrder rnd e c = Inr e' \<Longrightarrow> config_unchanged e e'"
  by (auto simp: executeSellOrder_def Let_def config_unchanged_def logMessage_def recordTrade_def
      split: if_splits sum.splits)

lemma config_run_step: "run_step rnd e c = Inr e' \<Longrightarrow> config_unchanged e e'"
proof -
  assume a: "run_step rnd e c = Inr e'"
  obtain sg st where p: "processCandle rnd (strategy e) c = (sg, st)" by (cases "processCandle rnd (strategy e) c")
  from a p obtain e2 where x: "checkExitConditions rnd (e\<lparr>strategy := st\<rparr>) c = Inr e2"
    by (auto simp: run_step_def split: sum.splits)
  have c1: "config_unchanged e (e\<lparr>strategy := st\<rparr>)" by (simp add: config_unchanged_def)
  from x have c2: "config_unchanged (e\<lparr>strategy := st\<rparr>) e2" by (rule config_checkExit)
  from a p x have "e' = e2 \<or> executeSellOrder rnd e2 c = Inr e'"
    by (auto simp: run_step_def split: if_splits)
  then have "config_unchanged e2 e'" by (auto simp: config_refl config_executeSellOrder)
  with c1 c2 show ?thesis by (blast intro: config_trans)
qed

lemma config_run_loop: "run_loop rnd e cs = Inr e' \<Longrightarrow> config_unchanged e e'"
proof (induction cs arbitrary: e)
  case Nil then show ?case by (simp add: config_refl)
next
  case (Cons c cs)
  show ?case
  proof (cases "session_active e")
    case False with Cons.prems show ?thesis by (simp add: config_refl)
  next
    case True
    with Cons.prems obtain e1 where s: "run_step rnd e c = Inr e1" and l: "run_loop rnd e1 cs = Inr e'"
      by (auto split: sum.splits)
    from config_run_step [OF s] Cons.IH [OF l] show ?thesis by (rule config_trans)
  qed
qed

lemma run_fresh:
  assumes "simulateLiveDataFeed rnd md = Inr e'"
  obtains e1 where "run_loop rnd (session_start rnd md) (candles md) = Inr e1"
    and "engine_inv rnd e1" and "config_unchanged (new_TradingEngine rnd md) e1"
    and "e' = (if is_open (position e1) then closePosition rnd e1 (last (candles md)) ''End of Market Data'' else e1)"
proof -
  have st: "(new_TradingEngine rnd md)\<lparr>strategy := initialize (strategy (new_TradingEngine rnd md))
        (MarketData.previous_day_close (market_data (new_TradingEngine rnd md)))\<rparr> = session_start rnd md"
    by (simp add: session_start_def new_TradingEngine_def)
  have md: "market_data (session_start rnd md) = md" by (simp add: session_start_def new_TradingEngine_def)
  from assms obtain e1 where l: "run_loop rnd (session_start rnd md) (candles md) = Inr e1"
    by (auto simp: simulateLiveDataFeed_def run_def Let_def st md split: sum.splits)
  have "engine_inv rnd (session_start rnd md)" by (simp add: session_start_def inv_new)
  from this l have i1: "engine_inv rnd e1" by (rule inv_run_loop)
  from config_run_loop [OF l] have c: "config_unchanged (new_TradingEngine rnd md) e1"
    by (simp add: config_unchanged_def session_start_def)
  then have md1: "market_data e1 = md" by (simp add: config_unchanged_def new_TradingEngine_def)
  have ne: "candles md \<noteq> []" if "is_open (position e1)"
  proof
    assume "candles md = []"
    with l have "e1 = session_start rnd md" by simp
    with that show False by (simp add: session_start_def new_TradingEngine_def Position0_def)
  qed
  from assms l have "e' = (if is_open (position e1) \<and> candles md \<noteq> []
             then closePosition rnd e1 (last (candles md)) ''End of Market Data'' else e1)"
    by (auto simp: simulateLiveDataFeed_def run_def Let_def st md md1)
  with ne have "e' = (if is_open (position e1) then closePosition rnd e1 (last (candles md)) ''End of Market Data'' else e1)"
    by auto
  with l i1 c show ?thesis by (rule that)
qed

subsection \<open>The cast to int\<close>

lemma static_cast_int_nonneg:
  assumes "0 \<le> x" "x < 2147483648"
  shows "static_cast_int x = Inr \<lfloor>x\<rfloor>"
proof -
  from assms(1) have "0 \<le> \<lfloor>x\<rfloor>" by simp
  moreover from assms(2) have "\<lfloor>x\<rfloor> < 2147483648" by (simp add: floor_less_iff)
  ultimately have "INT_MIN \<le> \<lfloor>x\<rfloor> \<and> \<lfloor>x\<rfloor> \<le> INT_MAX"
    unfolding INT_MIN_def INT_MAX_def by linarith
  with assms(1) show ?thesis by (simp add: static_cast_int_def)
qed

lemma static_cast_int_neg:
  assumes "x < 0" "- 2147483649 < x"
  shows "static_cast_int x = Inr \<lceil>x\<rceil>"
proof -
  from assms(1) have "\<lceil>x\<rceil> \<le> 0" by (simp add: ceiling_le_iff)
  moreover from assms(2) have "- 2147483648 \<le> \<lceil>x\<rceil>" by (simp add: le_ceiling_iff)
  ultimately have "INT_MIN \<le> \<lceil>x\<rceil> \<and> \<lceil>x\<rceil> \<le> INT_MAX"
    unfolding INT_MIN_def INT_MAX_def by linarith
  with assms(1) show ?thesis by (simp add: static_cast_int_def)
qed

subsection \<open>One step of the loop\<close>

lemma closePosition_open:
  "is_open (position e) \<Longrightarrow>
   closePosition rnd e c r =
     e\<lparr>risk_manager := updateCapital rnd (risk_manager e) (getUnrealizedPnL rnd (position e) (close c)),
       trade_log := trade_log e @
         [\<lparr>Trade.timestamp = Candle.timestamp c, Trade.side = Position.side (position e),
           type = EXIT, price = close c, Trade.quantity = Position.quantity (position e),
           pnl = getUnrealizedPnL rnd (position e) (close c)\<rparr>],
       console := console e @ [r],
       position := Position_close (position e)\<rparr>"
  by (simp add: closePosition_def Let_def logExit_def)

lemma checkExit_cases:
  assumes "checkExitConditions rnd e c = Inr e1"
  shows "(spec_exit rnd e c = NoExit \<and> e1 = e)
       \<or> (spec_exit rnd e c = ExitSL \<and> e1 = closePosition rnd e c ''Stop Loss Hit'')
       \<or> (spec_exit rnd e c = ExitTP \<and> e1 = closePosition rnd e c ''Take Profit Hit'')
       \<or> (spec_exit rnd e c = ExitTime \<and> e1 = (closePosition rnd e c ''Market Close (15:00)'')\<lparr>session_active := False\<rparr>)"
  using assms
  by (auto simp: checkExitConditions_def spec_exit_def Let_def split: if_splits sum.splits)

lemma positive_size_is_floor:
  assumes "calculatePositionSize rnd rm x = Inr q" "0 < q"
  shows "q = \<lfloor>fdiv rnd (current_capital rm) x\<rfloor>"
proof -
  from assms have x: "0 < x" by (auto simp: calculatePositionSize_def split: if_splits)
  with assms(1) have s: "static_cast_int (fdiv rnd (current_capital rm) x) = Inr q"
    by (simp add: calculatePositionSize_def)
  show ?thesis
  proof (cases "0 \<le> fdiv rnd (current_capital rm) x")
    case True
    with s show ?thesis by (auto simp: static_cast_int_def Let_def split: if_splits)
  next
    case False
    with s have "q = \<lceil>fdiv rnd (current_capital rm) x\<rceil>"
      by (auto simp: static_cast_int_def Let_def split: if_splits)
    moreover from False have "\<lceil>fdiv rnd (current_capital rm) x\<rceil> \<le> 0"
      by (simp add: ceiling_le_iff)
    ultimately show ?thesis using assms(2) by simp
  qed
qed

lemma executeSellOrder_cases:
  assumes "executeSellOrder rnd e c = Inr e'"
  shows "(\<exists>m. e' = logMessage e m)
       \<or> (\<not> is_open (position e) \<and> 0 < \<lfloor>fdiv rnd (current_capital (risk_manager e)) (close c)\<rfloor> \<and>
          e' = e\<lparr>position := Position_open (position e) SELL (close c)
                                 \<lfloor>fdiv rnd (current_capital (risk_manager e)) (close c)\<rfloor> (Candle.timestamp c),
                 risk_manager := recordTrade (risk_manager e),
                 trade_log := trade_log e @
                   [\<lparr>Trade.timestamp = Candle.timestamp c, Trade.side = SELL, type = ENTRY,
                     price = close c,
                     Trade.quantity = \<lfloor>fdiv rnd (current_capital (risk_manager e)) (close c)\<rfloor>, pnl = 0\<rparr>]\<rparr>)"
proof (cases "canTrade (risk_manager e) \<and> \<not> is_open (position e)")
  case False
  with assms show ?thesis by (auto simp: executeSellOrder_def split: if_splits)
next
  case True
  then obtain q where q: "calculatePositionSize rnd (risk_manager e) (close c) = Inr q"
    using assms by (cases "calculatePositionSize rnd (risk_manager e) (close c)") (auto simp: executeSellOrder_def)
  show ?thesis
  proof (cases "q \<le> 0")
    case True
    with \<open>canTrade (risk_manager e) \<and> \<not> is_open (position e)\<close> q assms show ?thesis
      by (auto simp: executeSellOrder_def)
  next
    case False
    with q have "q = \<lfloor>fdiv rnd (current_capital (risk_manager e)) (close c)\<rfloor>"
      by (simp add: positive_size_is_floor)
    with True q False assms show ?thesis by (auto simp: executeSellOrder_def Let_def)
  qed
qed

lemma run_step_cases:
  assumes "run_step rnd e c = Inr e'"
  obtains e1 where "checkExitConditions rnd (e\<lparr>strategy := snd (processCandle rnd (strategy e) c)\<rparr>) c = Inr e1"
    and "e' = e1 \<or> (fst (processCandle rnd (strategy e) c) \<and> session_active e1 \<and> executeSellOrder rnd e1 c = Inr e')"
  using assms by (auto simp: run_step_def split: prod.splits sum.splits if_splits)

lemma spec_exit_strategy [simp]: "spec_exit rnd (e\<lparr>strategy := st\<rparr>) c = spec_exit rnd e c"
  by (simp add: spec_exit_def)

lemma spec_exit_open: "spec_exit rnd e c \<noteq> NoExit \<Longrightarrow> is_open (position e)"
  by (auto simp: spec_exit_def split: if_splits)

lemma entry_phase:
  assumes "e' = e1 \<or> (sg \<and> session_active e1 \<and> executeSellOrder rnd e1 c = Inr e')"
  shows "strategy e' = strategy e1 \<and> session_active e' = session_active e1
       \<and> current_capital (risk_manager e') = current_capital (risk_manager e1)
       \<and> (\<exists>msgs. console e' = console e1 @ msgs)
       \<and> ((trade_log e' = trade_log e1 \<and> position e' = position e1
            \<and> risk_manager e' = risk_manager e1)
          \<or> (sg \<and> session_active e1 \<and> \<not> is_open (position e1)
             \<and> 0 < \<lfloor>fdiv rnd (current_capital (risk_manager e1)) (close c)\<rfloor>
             \<and> trade_log e' = trade_log e1 @
                   [\<lparr>Trade.timestamp = Candle.timestamp c, Trade.side = SELL, type = ENTRY,
                     price = close c,
                     Trade.quantity = \<lfloor>fdiv rnd (current_capital (risk_manager e1)) (close c)\<rfloor>,
                     pnl = 0\<rparr>]
             \<and> position e' = Position_open (position e1) SELL (close c)
                   \<lfloor>fdiv rnd (current_capital (risk_manager e1)) (close c)\<rfloor> (Candle.timestamp c)
             \<and> risk_manager e' = recordTrade (risk_manager e1)))"
proof -
  from assms consider "e' = e1" | "sg" "session_active e1" "executeSellOrder rnd e1 c = Inr e'" by blast
  then show ?thesis
  proof cases
    case 1 then show ?thesis by simp
  next
    case 2
    from executeSellOrder_cases [OF 2(3)] show ?thesis
    proof (elim disjE exE conjE)
      fix m assume "e' = logMessage e1 m"
      then show ?thesis by (simp add: logMessage_def)
    next
      assume "\<not> is_open (position e1)"
        and "0 < \<lfloor>fdiv rnd (current_capital (risk_manager e1)) (close c)\<rfloor>"
        and "e' = e1\<lparr>position := Position_open (position e1) SELL (close c)
                                 \<lfloor>fdiv rnd (current_capital (risk_manager e1)) (close c)\<rfloor> (Candle.timestamp c),
                 risk_manager := recordTrade (risk_manager e1),
                 trade_log := trade_log e1 @
                   [\<lparr>Trade.timestamp = Candle.timestamp c, Trade.side = SELL, type = ENTRY,
                     price = close c,
                     Trade.quantity = \<lfloor>fdiv rnd (current_capital (risk_manager e1)) (close c)\<rfloor>, pnl = 0\<rparr>]\<rparr>"
      with 2 show ?thesis by (simp add: recordTrade_def)
    qed
  qed
qed

subsection \<open>End of the session\<close>

lemma isPastMarketClose_True:
  "isPastMarketClose ts = Inr True \<longleftrightarrow> (\<exists>m. parseTimeToMinutes ts = Inr m \<and> 900 \<le> m)"
proof -
  have "parseTimeToMinutes MARKET_CLOSE_TIME = Inr 900" by (simp add: time_defs)
  then show ?thesis by (auto simp: isPastMarketClose_def split: sum.splits)
qed

lemma run_step_session_active:
  assumes "run_step rnd e c = Inr e'"
  shows "session_active e' = (session_active e \<and> spec_exit rnd e c \<noteq> ExitTime)"
proof -
  let ?e0 = "e\<lparr>strategy := snd (processCandle rnd (strategy e) c)\<rparr>"
  from assms obtain e1 where x: "checkExitConditions rnd ?e0 c = Inr e1"
    and y: "e' = e1 \<or> (fst (processCandle rnd (strategy e) c) \<and> session_active e1
              \<and> executeSellOrder rnd e1 c = Inr e')"
    by (rule run_step_cases)
  from entry_phase [OF y] have sa: "session_active e' = session_active e1" by simp
  have cl: "session_active (closePosition rnd ?e0 c r) = session_active e" for r
    by (simp add: closePosition_def Let_def logExit_def)
  from checkExit_cases [OF x] have "session_active e1 = (session_active e \<and> spec_exit rnd e c \<noteq> ExitTime)"
    by (auto simp: cl)
  with sa show ?thesis by simp
qed

subsection \<open>Values of the rounding\<close>

lemma binary64_val_1: "binary64 (- 2970) = - 2970"
  by (rule binary64_eqI [where e = 11 and m = "- 6531099068989440"]) (simp_all add: pow2_def round_even_def)

lemma binary64_val_2: "binary64 (- (199999 / 100)) = - (8796049041742889 / 4398046511104)"
  by (rule binary64_eqI [where e = 10 and m = "- 8796049041742889"]) (simp_all add: pow2_def round_even_def)

lemma binary64_val_3: "binary64 (- 1980) = - 1980"
  by (rule binary64_eqI [where e = 10 and m = "- 8708132091985920"]) (simp_all add: pow2_def round_even_def)

lemma binary64_val_4: "binary64 (- 1691) = - 1691"
  by (rule binary64_eqI [where e = 10 and m = "- 7437096650276864"]) (simp_all add: pow2_def round_even_def)

lemma binary64_val_5: "binary64 (- (1691 / 100)) = - (4759741856177193 / 281474976710656)"
  by (rule binary64_eqI [where e = 4 and m = "- 4759741856177193"]) (simp_all add: pow2_def round_even_def)

lemma binary64_val_6: "binary64 (- 3) = - 3"
  by (rule binary64_eqI [where e = 1 and m = "- 6755399441055744"]) (simp_all add: pow2_def round_even_def)

lemma binary64_val_7: "binary64 (- (214011054292645975 / 72057594037927936)) = - (6687845446645187 / 2251799813685248)"
  by (rule binary64_eqI [where e = 1 and m = "- 6687845446645187"]) (simp_all add: pow2_def round_even_def)

lemma binary64_val_8: "binary64 (- 2) = - 2"
  by (rule binary64_eqI [where e = 1 and m = "- 4503599627370496"]) (simp_all add: pow2_def round_even_def)

lemma binary64_val_9: "binary64 (- (142674036195097325 / 72057594037927936)) = - (8917127262193583 / 4503599627370496)"
  by (rule binary64_eqI [where e = 0 and m = "- 8917127262193583"]) (simp_all add: pow2_def round_even_def)

lemma binary64_val_10: "binary64 (- (297 / 10000)) = - (8560442171705839 / 288230376151711744)"
  by (rule binary64_eqI [where e = "- 6" and m = "- 8560442171705839"]) (simp_all add: pow2_def round_even_def)

lemma binary64_val_11: "binary64 (- (99 / 5000)) = - (5706961447803893 / 288230376151711744)"
  by (rule binary64_eqI [where e = "- 6" and m = "- 5706961447803893"]) (simp_all add: pow2_def round_even_def)

lemma binary64_val_12: "binary64 (99 / 10000) = 5706961447803893 / 576460752303423488"
  by (rule binary64_eqI [where e = "- 7" and m = 5706961447803893]) (simp_all add: pow2_def round_even_def)

lemma binary64_val_13: "binary64 (1 / 50) = 5764607523034235 / 288230376151711744"
  by (rule binary64_eqI [where e = "- 6" and m = 5764607523034235]) (simp_all add: pow2_def round_even_def)

lemma binary64_val_14: "binary64 (3 / 100) = 1080863910568919 / 36028797018963968"
  by (rule binary64_eqI [where e = "- 6" and m = 8646911284551352]) (simp_all add: pow2_def round_even_def)

lemma binary64_val_15: "binary64 (7 / 100) = 1261007895663739 / 18014398509481984"
  by (rule binary64_eqI [where e = "- 4" and m = 5044031582654956]) (simp_all add: pow2_def round_even_def)

lemma binary64_val_16: "binary64 (1 / 3) = 6004799503160661 / 18014398509481984"
  by (rule binary64_eqI [where e = "- 2" and m = 6004799503160661]) (simp_all add: pow2_def round_even_def)

lemma binary64_val_17: "binary64 (1 / 2) = 1 / 2"
  by (rule binary64_eqI [where e = "- 1" and m = 4503599627370496]) (simp_all add: pow2_def round_even_def)

lemma binary64_val_18: "binary64 (12009599006321323 / 18014398509481984) = 3002399751580331 / 4503599627370496"
  by (rule binary64_eqI [where e = "- 1" and m = 6004799503160662]) (simp_all add: pow2_def round_even_def)

lemma binary64_val_19: "binary64 (142674036195097325 / 144115188075855872) = 8917127262193583 / 9007199254740992"
  by (rule binary64_eqI [where e = "- 1" and m = 8917127262193583]) (simp_all add: pow2_def round_even_def)

lemma binary64_val_20: "binary64 (1) = 1"
  by (rule binary64_eqI [where e = 0 and m = 4503599627370496]) (simp_all add: pow2_def round_even_def)

lemma binary64_val_21: "binary64 (37109660929532887 / 36028797018963968) = 4638707616191611 / 4503599627370496"
  by (rule binary64_eqI [where e = 0 and m = 4638707616191611]) (simp_all add: pow2_def round_even_def)

lemma binary64_val_22: "binary64 (13743895347200000 / 4581298449066667) = 3"
  by (rule binary64_eqI [where e = 1 and m = 6755399441055744]) (simp_all add: pow2_def round_even_def)

lemma binary64_val_23: "binary64 (4) = 4"
  by (rule binary64_eqI [where e = 2 and m = 4503599627370496]) (simp_all add: pow2_def round_even_def)

lemma binary64_val_24: "binary64 (5) = 5"
  by (rule binary64_eqI [where e = 2 and m = 5629499534213120]) (simp_all add: pow2_def round_even_def)

lemma binary64_val_25: "binary64 (11 / 2) = 11 / 2"
  by (rule binary64_eqI [where e = 2 and m = 6192449487634432]) (simp_all add: pow2_def round_even_def)

lemma binary64_val_26: "binary64 (6) = 6"
  by (rule binary64_eqI [where e = 2 and m = 6755399441055744]) (simp_all add: pow2_def round_even_def)

lemma binary64_val_27: "binary64 (11) = 11"
  by (rule binary64_eqI [where e = 3 and m = 6192449487634432]) (simp_all add: pow2_def round_even_def)

lemma binary64_val_28: "binary64 (150119987579016525 / 4503599627370496) = 2345624805922133 / 70368744177664"
  by (rule binary64_eqI [where e = 5 and m = 4691249611844266]) (simp_all add: pow2_def round_even_def)

lemma binary64_val_29: "binary64 (606484749819226761 / 18014398509481984) = 4738162107962709 / 140737488355328"
  by (rule binary64_eqI [where e = 5 and m = 4738162107962709]) (simp_all add: pow2_def round_even_def)

lemma binary64_val_30: "binary64 (618494348825548083 / 18014398509481984) = 2415993550099797 / 70368744177664"
  by (rule binary64_eqI [where e = 5 and m = 4831987100199594]) (simp_all add: pow2_def round_even_def)

lemma binary64_val_31: "binary64 (78062393541088593 / 2251799813685248) = 4878899596318037 / 140737488355328"
  by (rule binary64_eqI [where e = 5 and m = 4878899596318037]) (simp_all add: pow2_def round_even_def)

lemma binary64_val_32: "binary64 (41748368545724499 / 1125899906842624) = 2609273034107781 / 70368744177664"
  by (rule binary64_eqI [where e = 5 and m = 5218546068215562]) (simp_all add: pow2_def round_even_def)

lemma binary64_val_33: "binary64 (50) = 50"
  by (rule binary64_eqI [where e = 5 and m = 7036874417766400]) (simp_all add: pow2_def round_even_def)

lemma binary64_val_34: "binary64 (101 / 2) = 101 / 2"
  by (rule binary64_eqI [where e = 5 and m = 7107243161944064]) (simp_all add: pow2_def round_even_def)

lemma binary64_val_35: "binary64 (405 / 8) = 405 / 8"
  by (rule binary64_eqI [where e = 5 and m = 7124835347988480]) (simp_all add: pow2_def round_even_def)

lemma binary64_val_36: "binary64 (203 / 4) = 203 / 4"
  by (rule binary64_eqI [where e = 5 and m = 7142427534032896]) (simp_all add: pow2_def round_even_def)

lemma binary64_val_37: "binary64 (817 / 16) = 817 / 16"
  by (rule binary64_eqI [where e = 5 and m = 7186407999143936]) (simp_all add: pow2_def round_even_def)

lemma binary64_val_38: "binary64 (103 / 2) = 103 / 2"
  by (rule binary64_eqI [where e = 5 and m = 7247980650299392]) (simp_all add: pow2_def round_even_def)

lemma binary64_val_39: "binary64 (52) = 52"
  by (rule binary64_eqI [where e = 5 and m = 7318349394477056]) (simp_all add: pow2_def round_even_def)

lemma binary64_val_40: "binary64 (75059993789508275 / 1125899906842624) = 4691249611844267 / 70368744177664"
  by (rule binary64_eqI [where e = 6 and m = 4691249611844267]) (simp_all add: pow2_def round_even_def)

lemma binary64_val_41: "binary64 (303242374909613431 / 4503599627370496) = 2369081053981355 / 35184372088832"
  by (rule binary64_eqI [where e = 6 and m = 4738162107962710]) (simp_all add: pow2_def round_even_def)

lemma binary64_val_42: "binary64 (21479635170533890466434829749817 / 316912650057057350374175801344) = 4769437105375005 / 70368744177664"
  by (rule binary64_eqI [where e = 6 and m = 4769437105375005]) (simp_all add: pow2_def round_even_def)

lemma binary64_val_43: "binary64 (100) = 100"
  by (rule binary64_eqI [where e = 6 and m = 7036874417766400]) (simp_all add: pow2_def round_even_def)

lemma binary64_val_44: "binary64 (805 / 8) = 805 / 8"
  by (rule binary64_eqI [where e = 6 and m = 7080854882877440]) (simp_all add: pow2_def round_even_def)

lemma binary64_val_45: "binary64 (7083786913884843 / 70368744177664) = 7083786913884843 / 70368744177664"
  by (rule binary64_eqI [where e = 6 and m = 7083786913884843]) (simp_all add: pow2_def round_even_def)

lemma binary64_val_46: "binary64 (101) = 101"
  by (rule binary64_eqI [where e = 6 and m = 7107243161944064]) (simp_all add: pow2_def round_even_def)

lemma binary64_val_47: "binary64 (14214486323888129 / 140737488355328) = 101"
  by (rule binary64_eqI [where e = 6 and m = 7107243161944064]) (simp_all add: pow2_def round_even_def)

lemma binary64_val_48: "binary64 (405 / 4) = 405 / 4"
  by (rule binary64_eqI [where e = 6 and m = 7124835347988480]) (simp_all add: pow2_def round_even_def)

lemma binary64_val_49: "binary64 (203 / 2) = 203 / 2"
  by (rule binary64_eqI [where e = 6 and m = 7142427534032896]) (simp_all add: pow2_def round_even_def)

lemma binary64_val_50: "binary64 (7154155658062507 / 70368744177664) = 7154155658062507 / 70368744177664"
  by (rule binary64_eqI [where e = 6 and m = 7154155658062507]) (simp_all add: pow2_def round_even_def)

lemma binary64_val_51: "binary64 (817 / 8) = 817 / 8"
  by (rule binary64_eqI [where e = 6 and m = 7186407999143936]) (simp_all add: pow2_def round_even_def)

lemma binary64_val_52: "binary64 (14417773807068047 / 140737488355328) = 901110862941753 / 8796093022208"
  by (rule binary64_eqI [where e = 6 and m = 7208886903534024]) (simp_all add: pow2_def round_even_def)

lemma binary64_val_53: "binary64 (115967690404790275 / 1125899906842624) = 103"
  by (rule binary64_eqI [where e = 6 and m = 7247980650299392]) (simp_all add: pow2_def round_even_def)

lemma binary64_val_54: "binary64 (1649 / 16) = 1649 / 16"
  by (rule binary64_eqI [where e = 6 and m = 7252378696810496]) (simp_all add: pow2_def round_even_def)

lemma binary64_val_55: "binary64 (48515 / 52) = 4103292817042511 / 4398046511104"
  by (rule binary64_eqI [where e = 9 and m = 8206585634085022]) (simp_all add: pow2_def round_even_def)

lemma binary64_val_56: "binary64 (100000 / 103) = 8539896138066019 / 8796093022208"
  by (rule binary64_eqI [where e = 9 and m = 8539896138066019]) (simp_all add: pow2_def round_even_def)

lemma binary64_val_57: "binary64 (990) = 990"
  by (rule binary64_eqI [where e = 9 and m = 8708132091985920]) (simp_all add: pow2_def round_even_def)

lemma binary64_val_58: "binary64 (100000 / 101) = 8709002992285149 / 8796093022208"
  by (rule binary64_eqI [where e = 9 and m = 8709002992285149]) (simp_all add: pow2_def round_even_def)

lemma binary64_val_59: "binary64 (18014398509481984375 / 9007199254740992) = 2000"
  by (rule binary64_eqI [where e = 10 and m = 8796093022208000]) (simp_all add: pow2_def round_even_def)

lemma binary64_val_60: "binary64 (3940649673949184375 / 562949953421312) = 7696581394432001 / 1099511627776"
  by (rule binary64_eqI [where e = 12 and m = 7696581394432001]) (simp_all add: pow2_def round_even_def)

lemma binary64_val_61: "binary64 (97030) = 97030"
  by (rule binary64_eqI [where e = 16 and m = 6667850827694080]) (simp_all add: pow2_def round_even_def)

lemma binary64_val_62: "binary64 (98020) = 98020"
  by (rule binary64_eqI [where e = 16 and m = 6735883109662720]) (simp_all add: pow2_def round_even_def)

lemma binary64_val_63: "binary64 (100000) = 100000"
  by (rule binary64_eqI [where e = 16 and m = 6871947673600000]) (simp_all add: pow2_def round_even_def)

lemma binary64_val_64: "binary64 (100990) = 100990"
  by (rule binary64_eqI [where e = 16 and m = 6939979955568640]) (simp_all add: pow2_def round_even_def)

lemmas binary64_vals =
  binary64_val_1 binary64_val_2 binary64_val_3 binary64_val_4 binary64_val_5 binary64_val_6
  binary64_val_7 binary64_val_8 binary64_val_9 binary64_val_10 binary64_val_11 binary64_val_12
  binary64_val_13 binary64_val_14 binary64_val_15 binary64_val_16 binary64_val_17
  binary64_val_18 binary64_val_19 binary64_val_20 binary64_val_21 binary64_val_22
  binary64_val_23 binary64_val_24 binary64_val_25 binary64_val_26 binary64_val_27
  binary64_val_28 binary64_val_29 binary64_val_30 binary64_val_31 binary64_val_32
  binary64_val_33 binary64_val_34 binary64_val_35 binary64_val_36 binary64_val_37
  binary64_val_38 binary64_val_39 binary64_val_40 binary64_val_41 binary64_val_42
  binary64_val_43 binary64_val_44 binary64_val_45 binary64_val_46 binary64_val_47
  binary64_val_48 binary64_val_49 binary64_val_50 binary64_val_51 binary64_val_52
  binary64_val_53 binary64_val_54 binary64_val_55 binary64_val_56 binary64_val_57
  binary64_val_58 binary64_val_59 binary64_val_60 binary64_val_61 binary64_val_62
  binary64_val_63 binary64_val_64

lemmas run_defs = engine_defs time_defs fp_defs binary64_vals binary64_0 session_start_def Let_def

subsection \<open>The example sessions, evaluated\<close>

lemma demo_run:
  "\<exists>e. simulateLiveDataFeed binary64 demo_data = Inr e
     \<and> map type (trade_log e) = [ENTRY, EXIT] \<and> map pnl (trade_log e) = [0, 990]
     \<and> map price (trade_log e) = [101, 100]
     \<and> map Trade.quantity (trade_log e) = [990, 990]
     \<and> current_capital (risk_manager e) = 100990 \<and> console e = [''End of Market Data'']"
  by (simp add: demo_data_def demo_candles_def run_defs)

lemma demo_run_exact:
  "\<exists>e. simulateLiveDataFeed (\<lambda>y. y) demo_data = Inr e
     \<and> map pnl (trade_log e) = [0, 990] \<and> current_capital (risk_manager e) = 100990"
  by (simp add: demo_data_def demo_candles_def engine_defs time_defs fp_defs session_start_def
      Let_def)

lemma demo_loop:
  "\<exists>e1. run_loop binary64 (session_start binary64 demo_data) (candles demo_data) = Inr e1
      \<and> is_open (position e1)
      \<and> Position.quantity (position e1) = 990 \<and> entry_price (position e1) = 101
      \<and> current_capital (risk_manager e1) = 100000"
  by (simp add: demo_data_def demo_candles_def run_defs)

lemma demo_prefix3:
  "\<exists>e. run_loop binary64 (session_start binary64 demo_data) (take 3 (candles demo_data)) = Inr e
     \<and> map type (trade_log e) = [ENTRY] \<and> is_open (position e)
     \<and> Position.quantity (position e) = 990"
  by (simp add: demo_data_def demo_candles_def run_defs)

text \<open>
  Claim C4. For a calculator of period \<open>p\<close> (other than \<open>-1\<close>, where \<open>2 / (p + 1)\<close> divides by
  zero), the multiplier is the double quotient \<open>2 / (p + 1)\<close> and no update changes it; the
  first update with price \<open>x\<close> makes the value \<open>x\<close>; after one or more updates, a further
  update with price \<open>x\<close> replaces the value \<open>e\<close> by \<open>x * \<alpha> + e * (1 - \<alpha>)\<close>, computed in double
  arithmetic, which without rounding error is that expression itself; and for period 3 the
  prices 10, 12, 11 give the values 10, 11, 11, in doubles as well as without rounding.
\<close>

theorem ema_recurrence:
  assumes "p \<noteq> - 1"
  shows "multiplier (foldl (update rnd) (new_EMACalculator rnd p) hist)
           = fdiv rnd 2 (fadd rnd (of_int p) 1)
       \<and> getValue (update rnd (new_EMACalculator rnd p) x) = x
       \<and> getValue (update rnd (foldl (update rnd) (new_EMACalculator rnd p) (x0 # xs)) x)
           = fadd rnd
               (fmul rnd x (fdiv rnd 2 (fadd rnd (of_int p) 1)))
               (fmul rnd (getValue (foldl (update rnd) (new_EMACalculator rnd p) (x0 # xs)))
                  (fsub rnd 1 (fdiv rnd 2 (fadd rnd (of_int p) 1))))
       \<and> ((\<forall>y. rnd y = y) \<longrightarrow>
             multiplier (foldl (update rnd) (new_EMACalculator rnd p) hist) = 2 / (of_int p + 1)
           \<and> getValue (update rnd (foldl (update rnd) (new_EMACalculator rnd p) (x0 # xs)) x)
               = x * (2 / (of_int p + 1))
                 + getValue (foldl (update rnd) (new_EMACalculator rnd p) (x0 # xs))
                   * (1 - 2 / (of_int p + 1)))
       \<and> ema_values binary64 (new_EMACalculator binary64 3) [10, 12, 11] = [10, 11, 11]
       \<and> ema_values (\<lambda>y. y) (new_EMACalculator (\<lambda>y. y) 3) [10, 12, 11] = [10, 11, 11]"
proof -
  let ?a = "fdiv rnd 2 (fadd rnd (of_int p) 1)"
  let ?e = "foldl (update rnd) (new_EMACalculator rnd p) (x0 # xs)"
  have m: "multiplier (foldl (update rnd) (new_EMACalculator rnd p) ys) = ?a" for ys
    by (simp add: foldl_update_multiplier new_EMACalculator_def)
  have first: "getValue (update rnd (new_EMACalculator rnd p) x) = x"
    by (simp add: getValue_def update_def new_EMACalculator_def)
  have later: "getValue (update rnd ?e x)
      = fadd rnd (fmul rnd x ?a) (fmul rnd (getValue ?e) (fsub rnd 1 ?a))"
  proof -
    have "initialized ?e" by (rule foldl_update_Cons_initialized)
    moreover have "multiplier ?e = ?a" by (rule m)
    ultimately show ?thesis by (simp add: getValue_def update_def)
  qed
  have exact: "(\<forall>y. rnd y = y) \<longrightarrow>
             multiplier (foldl (update rnd) (new_EMACalculator rnd p) hist) = 2 / (of_int p + 1)
           \<and> getValue (update rnd ?e x)
               = x * (2 / (of_int p + 1)) + getValue ?e * (1 - 2 / (of_int p + 1))"
  proof
    assume "\<forall>y. rnd y = y"
    then have a: "?a = 2 / (of_int p + 1)" by (simp add: fp_defs)
    from \<open>\<forall>y. rnd y = y\<close> later m [of hist]
    show "multiplier (foldl (update rnd) (new_EMACalculator rnd p) hist) = 2 / (of_int p + 1)
           \<and> getValue (update rnd ?e x)
               = x * (2 / (of_int p + 1)) + getValue ?e * (1 - 2 / (of_int p + 1))"
      unfolding a by (simp add: fp_defs)
  qed
  have ex: "ema_values binary64 (new_EMACalculator binary64 3) [10, 12, 11] = [10, 11, 11]"
    by (simp add: getValue_def update_def new_EMACalculator_def fp_defs binary64_vals)
  have ex': "ema_values (\<lambda>y. y) (new_EMACalculator (\<lambda>y. y) 3) [10, 12, 11] = [10, 11, 11]"
    by (simp add: getValue_def update_def new_EMACalculator_def fp_defs)
  from m [of hist] first later exact ex ex' show ?thesis by blast
qed

theorem ema_recurrence_witness:
  "(3::int) \<noteq> - 1
   \<and> multiplier (foldl (update binary64) (new_EMACalculator binary64 3) [10, 12]) = 1 / 2
   \<and> getValue (update binary64 (new_EMACalculator binary64 3) 11) = 11
   \<and> getValue (update binary64 (foldl (update binary64) (new_EMACalculator binary64 3) [10, 12]) 11)
       = 11
   \<and> (\<forall>y::real. (\<lambda>y. y) y = y)
   \<and> multiplier (foldl (update (\<lambda>y. y)) (new_EMACalculator (\<lambda>y. y) 3) [10, 12]) = 2 / (3 + 1)
   \<and> getValue (update (\<lambda>y. y)
                  (foldl (update (\<lambda>y. y)) (new_EMACalculator (\<lambda>y. y) 3) [10, 12]) 11)
       = 11 * (2 / (3 + 1)) + 11 * (1 - 2 / (3 + 1))"
proof -
  have p: "(3::int) \<noteq> - 1" by simp
  note th = ema_recurrence [OF p, where rnd = binary64 and hist = "[10, 12]" and x = 11
      and ?x0.0 = 10 and xs = "[12]"]
  have a: "multiplier (foldl (update binary64) (new_EMACalculator binary64 3) [10, 12]) = 1 / 2"
    using th [THEN conjunct1] by (simp add: fp_defs binary64_vals)
  have b: "getValue (update binary64 (new_EMACalculator binary64 3) 11) = 11"
    by (rule th [THEN conjunct2, THEN conjunct1])
  have v: "getValue (foldl (update binary64) (new_EMACalculator binary64 3) [10, 12]) = 11"
    by (simp add: getValue_def update_def new_EMACalculator_def fp_defs binary64_vals)
  have c: "getValue (update binary64 (foldl (update binary64) (new_EMACalculator binary64 3) [10, 12]) 11)
       = 11"
    using th [THEN conjunct2, THEN conjunct2, THEN conjunct1] v
    by (simp add: fp_defs binary64_vals)
  have i: "\<forall>y::real. (\<lambda>y. y) y = y" by simp
  note ex = ema_recurrence [OF p, where rnd = "\<lambda>y. y" and hist = "[10, 12]" and x = 11
      and ?x0.0 = 10 and xs = "[12]", THEN conjunct2, THEN conjunct2, THEN conjunct2,
      THEN conjunct1, THEN mp, OF i]
  have d: "multiplier (foldl (update (\<lambda>y. y)) (new_EMACalculator (\<lambda>y. y) 3) [10, 12])
             = 2 / (3 + 1)"
    using ex [THEN conjunct1] by simp
  have v': "getValue (foldl (update (\<lambda>y. y)) (new_EMACalculator (\<lambda>y. y) 3) [10, 12]) = 11"
    by (simp add: getValue_def update_def new_EMACalculator_def fp_defs)
  have e: "getValue (update (\<lambda>y. y)
                  (foldl (update (\<lambda>y. y)) (new_EMACalculator (\<lambda>y. y) 3) [10, 12]) 11)
       = 11 * (2 / (3 + 1)) + 11 * (1 - 2 / (3 + 1))"
    using ex [THEN conjunct2] v' by simp
  from p a b c i d e show ?thesis by blast
qed

subsection \<open>The pattern detector\<close>

text \<open>
  Claim C1 as stated fails. With a previous close of 36 the gap test of the program compares
  the open with the double product \<open>36 * (1.0 + 0.03)\<close>, which is the double nearest to 37.08
  and lies below \<open>36 * 1.03\<close>. A first candle that opens at that double, with its low above its
  close, is captured, although its open is less than 1.03 times the previous close.
\<close>

theorem gap_test_uses_rounded_product:
  "first_candle_valid
     (snd (processCandle binary64 (initialize (new_TwoCandelPatternStrategy binary64) 36)
        \<lparr>Candle.timestamp = ''09:15'', open_c = 2609273034107781 / 70368744177664, high = 38,
         low = 37, close = 36.5\<rparr>))
   \<and> \<not> ((2609273034107781 / 70368744177664 :: real) \<ge> 36 * 1.03)"
  by (simp add: engine_defs fp_defs binary64_vals Let_def)

text \<open>
  Claim C1, amended. Every call of \<open>processCandle\<close> feeds the close to both EMAs. When no first
  candle is held, the call gives no signal, and it captures the candle as the first candle
  exactly when the open is at least the double product of the previous day's close and
  \<open>1.0 + 0.03\<close>, and the low is above the EMA(5) value (the value after this candle's update).
  When a first candle is held, the call signals exactly when the low is strictly below the
  first candle's low, a signal drops the hold, no signal keeps it, and the held candle is
  the same afterwards. A call that captures a candle gives no signal.
\<close>

theorem processCandle_transitions:
  "(case processCandle rnd s c of (signal, s') \<Rightarrow>
      ema3 s' = update rnd (ema3 s) (close c) \<and> ema5 s' = update rnd (ema5 s) (close c)
    \<and> (\<not> first_candle_valid s \<longrightarrow>
           \<not> signal
         \<and> (first_candle_valid s' \<longleftrightarrow>
               open_c c \<ge> fmul rnd (TwoCandelPatternStrategy.previous_day_close s)
                             (fadd rnd 1 (rnd 0.03))
             \<and> low c > getEMA5 s')
         \<and> (first_candle_valid s' \<longrightarrow> first_candle s' = c))
    \<and> (first_candle_valid s \<longrightarrow>
           (signal \<longleftrightarrow> low c < low (first_candle s))
         \<and> (first_candle_valid s' \<longleftrightarrow> \<not> signal)
         \<and> first_candle s' = first_candle s)
    \<and> (\<not> first_candle_valid s \<and> first_candle_valid s' \<longrightarrow> \<not> signal))"
  by (simp add: processCandle_def Let_def isInitialized_def update_initialized
      GAP_THRESHOLD_def getEMA5_def)

theorem processCandle_transitions_witness:
  "(case processCandle binary64
           (snd (processCandle binary64 (initialize (new_TwoCandelPatternStrategy binary64) 100)
                   (demo_candles ! 0)))
           (demo_candles ! 1) of
      (signal, s') \<Rightarrow> \<not> signal \<and> first_candle_valid s' \<and> first_candle s' = demo_candles ! 1
         \<and> (case processCandle binary64 s' (demo_candles ! 2) of
               (signal2, s'') \<Rightarrow> signal2 \<and> \<not> first_candle_valid s''
                  \<and> first_candle s'' = demo_candles ! 1))"
  using processCandle_transitions
          [of binary64
              "snd (processCandle binary64 (initialize (new_TwoCandelPatternStrategy binary64) 100)
                      (demo_candles ! 0))"
              "demo_candles ! 1"]
        processCandle_transitions
          [of binary64
              "snd (processCandle binary64
                      (snd (processCandle binary64
                              (initialize (new_TwoCandelPatternStrategy binary64) 100)
                              (demo_candles ! 0)))
                      (demo_candles ! 1))"
              "demo_candles ! 2"]
  by (simp add: demo_candles_def engine_defs fp_defs binary64_vals getEMA5_def Let_def)

text \<open>
  Claim C10. An update always leaves the calculator initialised, so the readiness test of
  \<open>processCandle\<close>, which comes after both updates, never holds: the early return is dead and
  the strategy is ready after every call. On the first candle of a session the EMA(5) is
  that candle's close, so the first candle is captured exactly when its open is at least
  the double product of the previous close and \<open>1.0 + 0.03\<close> and its low is above its own
  close; such a candle exists, in doubles as well as without rounding.
\<close>

theorem readiness_branch_dead:
  "isInitialized (update rnd e x)
   \<and> isInitialized (ema5 (s\<lparr>ema3 := update rnd (ema3 s) (close c),
                            ema5 := update rnd (ema5 s) (close c)\<rparr>))
   \<and> isEMA5Ready (snd (processCandle rnd s c))
   \<and> (first_candle_valid (snd (processCandle rnd (initialize (new_TwoCandelPatternStrategy rnd) pdc) c))
        \<longleftrightarrow> open_c c \<ge> fmul rnd pdc (fadd rnd 1 (GAP_THRESHOLD rnd)) \<and> low c > close c)
   \<and> first_candle_valid
        (snd (processCandle binary64 (initialize (new_TwoCandelPatternStrategy binary64) 100)
           \<lparr>Candle.timestamp = ''09:15'', open_c = 104, high = 105, low = 102, close = 101\<rparr>))
   \<and> first_candle_valid
        (snd (processCandle (\<lambda>y. y) (initialize (new_TwoCandelPatternStrategy (\<lambda>y. y)) 100)
           \<lparr>Candle.timestamp = ''09:15'', open_c = 104, high = 105, low = 102, close = 101\<rparr>))"
proof -
  have a: "isInitialized (update rnd e x)"
    by (simp add: isInitialized_def update_initialized)
  have b: "isInitialized (ema5 (s\<lparr>ema3 := update rnd (ema3 s) (close c),
                            ema5 := update rnd (ema5 s) (close c)\<rparr>))"
    by (simp add: isInitialized_def update_initialized)
  have c: "isEMA5Ready (snd (processCandle rnd s c))"
    by (simp add: isEMA5Ready_def processCandle_def Let_def isInitialized_def update_initialized)
  have d: "first_candle_valid (snd (processCandle rnd (initialize (new_TwoCandelPatternStrategy rnd) pdc) c))
        \<longleftrightarrow> open_c c \<ge> fmul rnd pdc (fadd rnd 1 (GAP_THRESHOLD rnd)) \<and> low c > close c"
    by (simp add: processCandle_def Let_def isInitialized_def update_def initialize_def
        new_TwoCandelPatternStrategy_def new_EMACalculator_def reset_def getValue_def)
  have e: "first_candle_valid
        (snd (processCandle binary64 (initialize (new_TwoCandelPatternStrategy binary64) 100)
           \<lparr>Candle.timestamp = ''09:15'', open_c = 104, high = 105, low = 102, close = 101\<rparr>))"
    by (simp add: engine_defs fp_defs binary64_vals Let_def)
  have f: "first_candle_valid
        (snd (processCandle (\<lambda>y. y) (initialize (new_TwoCandelPatternStrategy (\<lambda>y. y)) 100)
           \<lparr>Candle.timestamp = ''09:15'', open_c = 104, high = 105, low = 102, close = 101\<rparr>))"
    by (simp add: engine_defs fp_defs Let_def)
  from a b c d e f show ?thesis by blast
qed

subsection \<open>End of data\<close>

text \<open>
  Claim C7. When a session on a fresh engine returns, no position is open and the log is a
  sequence of ENTRY/EXIT pairs. Every EXIT record follows its ENTRY, is on the SELL side with
  the entry's quantity, and its PnL is (entry price - exit price) * quantity, computed in
  double arithmetic; an ENTRY carries no PnL. The final capital of the summary is the
  initial capital with the realised PnLs of the log added to it in log order, which without
  rounding error is the initial capital plus the sum of the PnLs of the log. If the loop left
  a position open, \<open>run\<close> appends exactly one EXIT record at the close of the last candle and
  adds its PnL to the capital; otherwise it changes nothing.
\<close>

theorem end_of_data_close:
  assumes "simulateLiveDataFeed rnd md = Inr e'"
  shows "\<not> is_open (position e')
    \<and> even (length (trade_log e'))
    \<and> (\<forall>i < length (trade_log e'). type (trade_log e' ! i) = EXIT \<longrightarrow>
          0 < i \<and> type (trade_log e' ! (i - 1)) = ENTRY \<and> Trade.side (trade_log e' ! i) = SELL
        \<and> Trade.quantity (trade_log e' ! i) = Trade.quantity (trade_log e' ! (i - 1))
        \<and> pnl (trade_log e' ! i)
            = fmul rnd (fsub rnd (price (trade_log e' ! (i - 1))) (price (trade_log e' ! i)))
                (of_int (Trade.quantity (trade_log e' ! i))))
    \<and> (\<forall>i < length (trade_log e'). type (trade_log e' ! i) = ENTRY \<longrightarrow> pnl (trade_log e' ! i) = 0)
    \<and> sum_initial_capital (printSummary rnd e') = capital md
    \<and> sum_final_capital (printSummary rnd e')
        = foldl (fadd rnd) (capital md) (realized (trade_log e'))
    \<and> ((\<forall>y. rnd y = y) \<longrightarrow>
          sum_final_capital (printSummary rnd e') = capital md + sum_list (map pnl (trade_log e'))
        \<and> sum_final_capital (printSummary rnd e')
            = foldl (+) (capital md) (map pnl (trade_log e')))
    \<and> (\<forall>e1. run_loop rnd (session_start rnd md) (candles md) = Inr e1 \<longrightarrow>
          (if is_open (position e1)
           then trade_log e' = trade_log e1 @
                  [\<lparr>Trade.timestamp = Candle.timestamp (last (candles md)), Trade.side = SELL,
                    type = EXIT, price = close (last (candles md)),
                    Trade.quantity = Position.quantity (position e1),
                    pnl = fmul rnd (fsub rnd (entry_price (position e1)) (close (last (candles md))))
                            (of_int (Position.quantity (position e1)))\<rparr>]
              \<and> current_capital (risk_manager e')
                  = fadd rnd (current_capital (risk_manager e1))
                      (fmul rnd (fsub rnd (entry_price (position e1)) (close (last (candles md))))
                         (of_int (Position.quantity (position e1))))
           else e' = e1))"
proof -
  from assms obtain e1 where l: "run_loop rnd (session_start rnd md) (candles md) = Inr e1"
    and i1: "engine_inv rnd e1" and c: "config_unchanged (new_TradingEngine rnd md) e1"
    and e': "e' = (if is_open (position e1)
                   then closePosition rnd e1 (last (candles md)) ''End of Market Data'' else e1)"
    by (rule run_fresh)
  from e' inv_closePosition [OF i1] i1
  have inv: "engine_inv rnd e'" and cl: "\<not> is_open (position e')"
    by auto
  from e' c config_closePosition [of e1 rnd] have c': "config_unchanged (new_TradingEngine rnd md) e'"
    by (auto intro: config_trans)
  from inv have lp: "log_paired rnd (trade_log e')" by (simp add: engine_inv_def)
  from inv cl have ev: "even (length (trade_log e'))" by (simp add: engine_inv_def)
  have ex: "\<forall>i < length (trade_log e'). type (trade_log e' ! i) = EXIT \<longrightarrow>
          0 < i \<and> type (trade_log e' ! (i - 1)) = ENTRY \<and> Trade.side (trade_log e' ! i) = SELL
        \<and> Trade.quantity (trade_log e' ! i) = Trade.quantity (trade_log e' ! (i - 1))
        \<and> pnl (trade_log e' ! i)
            = fmul rnd (fsub rnd (price (trade_log e' ! (i - 1))) (price (trade_log e' ! i)))
                (of_int (Trade.quantity (trade_log e' ! i)))"
    using log_paired_exit [OF lp] by blast
  have en: "\<forall>i < length (trade_log e'). type (trade_log e' ! i) = ENTRY \<longrightarrow> pnl (trade_log e' ! i) = 0"
  proof (intro allI impI)
    fix i assume i: "i < length (trade_log e')" and t: "type (trade_log e' ! i) = ENTRY"
    from lp i t have "even i" by (simp add: log_paired_nth_type)
    moreover from this i ev have "Suc i < length (trade_log e')"
      by (metis Suc_lessI even_Suc)
    ultimately show "pnl (trade_log e' ! i) = 0" using log_paired_nth_pair [OF lp] by blast
  qed
  from c' have ic: "sum_initial_capital (printSummary rnd e') = capital md"
    by (simp add: config_unchanged_def printSummary_def getInitialCapital_def
        new_TradingEngine_def new_RiskManager_def)
  from inv ic have fc: "sum_final_capital (printSummary rnd e')
      = foldl (fadd rnd) (capital md) (realized (trade_log e'))"
    by (simp add: engine_inv_def printSummary_def getCurrentCapital_def getInitialCapital_def)
  have exact: "(\<forall>y. rnd y = y) \<longrightarrow>
          sum_final_capital (printSummary rnd e') = capital md + sum_list (map pnl (trade_log e'))
        \<and> sum_final_capital (printSummary rnd e')
            = foldl (+) (capital md) (map pnl (trade_log e'))"
  proof
    assume "\<forall>y. rnd y = y"
    then have r: "rnd = (\<lambda>y. y)" by (simp add: fun_eq_iff)
    from fc have "sum_final_capital (printSummary rnd e')
        = capital md + sum_list (realized (trade_log e'))"
      unfolding r by (simp add: foldl_fadd_exact)
    with log_paired_realized_sum [OF lp]
    have s: "sum_final_capital (printSummary rnd e')
        = capital md + sum_list (map pnl (trade_log e'))" by simp
    moreover have "foldl (+) (capital md) (map pnl (trade_log e'))
        = capital md + sum_list (map pnl (trade_log e'))"
      by (rule foldl_plus_sum_list)
    ultimately show "sum_final_capital (printSummary rnd e')
            = capital md + sum_list (map pnl (trade_log e'))
        \<and> sum_final_capital (printSummary rnd e')
            = foldl (+) (capital md) (map pnl (trade_log e'))" by simp
  qed
  have fin: "\<forall>e1. run_loop rnd (session_start rnd md) (candles md) = Inr e1 \<longrightarrow>
          (if is_open (position e1)
           then trade_log e' = trade_log e1 @
                  [\<lparr>Trade.timestamp = Candle.timestamp (last (candles md)), Trade.side = SELL,
                    type = EXIT, price = close (last (candles md)),
                    Trade.quantity = Position.quantity (position e1),
                    pnl = fmul rnd (fsub rnd (entry_price (position e1)) (close (last (candles md))))
                            (of_int (Position.quantity (position e1)))\<rparr>]
              \<and> current_capital (risk_manager e')
                  = fadd rnd (current_capital (risk_manager e1))
                      (fmul rnd (fsub rnd (entry_price (position e1)) (close (last (candles md))))
                         (of_int (Position.quantity (position e1))))
           else e' = e1)"
  proof (intro allI impI)
    fix e2 assume "run_loop rnd (session_start rnd md) (candles md) = Inr e2"
    with l have [simp]: "e2 = e1" by simp
    from i1 have "is_open (position e1) \<Longrightarrow> Position.side (position e1) = SELL"
      by (simp add: engine_inv_def)
    then show "if is_open (position e2)
           then trade_log e' = trade_log e2 @
                  [\<lparr>Trade.timestamp = Candle.timestamp (last (candles md)), Trade.side = SELL,
                    type = EXIT, price = close (last (candles md)),
                    Trade.quantity = Position.quantity (position e2),
                    pnl = fmul rnd (fsub rnd (entry_price (position e2)) (close (last (candles md))))
                            (of_int (Position.quantity (position e2)))\<rparr>]
              \<and> current_capital (risk_manager e')
                  = fadd rnd (current_capital (risk_manager e2))
                      (fmul rnd (fsub rnd (entry_price (position e2)) (close (last (candles md))))
                         (of_int (Position.quantity (position e2))))
           else e' = e2"
      using e' by (simp add: closePosition_def Let_def logExit_def updateCapital_def getUnrealizedPnL_def)
  qed
  from cl ev ex en ic fc exact fin show ?thesis by blast
qed

theorem end_of_data_close_witness:
  "(\<exists>e' e1. simulateLiveDataFeed binary64 demo_data = Inr e'
      \<and> run_loop binary64 (session_start binary64 demo_data) (candles demo_data) = Inr e1
      \<and> is_open (position e1) \<and> \<not> is_open (position e')
      \<and> map type (trade_log e') = [ENTRY, EXIT]
      \<and> pnl (trade_log e' ! 1)
          = fmul binary64 (fsub binary64 (price (trade_log e' ! 0)) (price (trade_log e' ! 1)))
              (of_int (Trade.quantity (trade_log e' ! 1)))
      \<and> pnl (trade_log e' ! 1) = 990
      \<and> sum_final_capital (printSummary binary64 e')
          = foldl (fadd binary64) (capital demo_data) (realized (trade_log e'))
      \<and> sum_final_capital (printSummary binary64 e') = 100990
      \<and> length (trade_log e') = length (trade_log e1) + 1)
      \<and> (\<forall>y::real. (\<lambda>y. y) y = y)
      \<and> (\<exists>e. simulateLiveDataFeed (\<lambda>y. y) demo_data = Inr e
            \<and> sum_final_capital (printSummary (\<lambda>y. y) e)
                = capital demo_data + sum_list (map pnl (trade_log e))
            \<and> sum_final_capital (printSummary (\<lambda>y. y) e) = 100000 + (0 + 990))"
proof -
  from demo_run obtain e' where r: "simulateLiveDataFeed binary64 demo_data = Inr e'"
    and t: "map type (trade_log e') = [ENTRY, EXIT]" and p: "map pnl (trade_log e') = [0, 990]"
    and c: "current_capital (risk_manager e') = 100990"
    by (elim exE conjE)
  from demo_loop obtain e1
    where l: "run_loop binary64 (session_start binary64 demo_data) (candles demo_data) = Inr e1"
      and o: "is_open (position e1)" by (elim exE conjE)
  note th = end_of_data_close [OF r]
  from t obtain a b where ab: "trade_log e' = [a, b]" by auto
  from t ab have x: "type (trade_log e' ! 1) = EXIT" by simp
  from p ab have p1: "pnl (trade_log e' ! 1) = 990" by simp
  have c1: "\<not> is_open (position e')" by (rule th [THEN conjunct1])
  note c3 = th [THEN conjunct2, THEN conjunct2, THEN conjunct1, rule_format, of 1]
  from ab have "1 < length (trade_log e')" by simp
  from c3 [OF this x]
  have c3': "pnl (trade_log e' ! 1)
          = fmul binary64 (fsub binary64 (price (trade_log e' ! 0)) (price (trade_log e' ! 1)))
              (of_int (Trade.quantity (trade_log e' ! 1)))" by simp
  have c6: "sum_final_capital (printSummary binary64 e')
      = foldl (fadd binary64) (capital demo_data) (realized (trade_log e'))"
    by (rule th [THEN conjunct2, THEN conjunct2, THEN conjunct2, THEN conjunct2, THEN conjunct2,
          THEN conjunct1])
  note c8 = th [THEN conjunct2, THEN conjunct2, THEN conjunct2, THEN conjunct2, THEN conjunct2,
      THEN conjunct2, THEN conjunct2, rule_format, OF l]
  from c8 o have c8': "length (trade_log e') = length (trade_log e1) + 1" by simp
  from c have c9: "sum_final_capital (printSummary binary64 e') = 100990"
    by (simp add: printSummary_def getCurrentCapital_def)
  have i: "\<forall>y::real. (\<lambda>y. y) y = y" by simp
  from demo_run_exact obtain e where r': "simulateLiveDataFeed (\<lambda>y. y) demo_data = Inr e"
    and p': "map pnl (trade_log e) = [0, 990]"
    by (elim exE conjE)
  note ex = end_of_data_close [OF r', THEN conjunct2, THEN conjunct2, THEN conjunct2,
      THEN conjunct2, THEN conjunct2, THEN conjunct2, THEN conjunct1, THEN mp, OF i,
      THEN conjunct1]
  from ex p' have ex': "sum_final_capital (printSummary (\<lambda>y. y) e) = 100000 + (0 + 990)"
    by (simp add: demo_data_def)
  have x2: "\<exists>e. simulateLiveDataFeed (\<lambda>y. y) demo_data = Inr e
            \<and> sum_final_capital (printSummary (\<lambda>y. y) e)
                = capital demo_data + sum_list (map pnl (trade_log e))
            \<and> sum_final_capital (printSummary (\<lambda>y. y) e) = 100000 + (0 + 990)"
    by (intro exI conjI) (rule r' ex ex')+
  have x1: "\<exists>e' e1. simulateLiveDataFeed binary64 demo_data = Inr e'
      \<and> run_loop binary64 (session_start binary64 demo_data) (candles demo_data) = Inr e1
      \<and> is_open (position e1) \<and> \<not> is_open (position e')
      \<and> map type (trade_log e') = [ENTRY, EXIT]
      \<and> pnl (trade_log e' ! 1)
          = fmul binary64 (fsub binary64 (price (trade_log e' ! 0)) (price (trade_log e' ! 1)))
              (of_int (Trade.quantity (trade_log e' ! 1)))
      \<and> pnl (trade_log e' ! 1) = 990
      \<and> sum_final_capital (printSummary binary64 e')
          = foldl (fadd binary64) (capital demo_data) (realized (trade_log e'))
      \<and> sum_final_capital (printSummary binary64 e') = 100990
      \<and> length (trade_log e') = length (trade_log e1) + 1"
    by (intro exI conjI) (rule r l o c1 t c3' p1 c6 c9 c8')+
  from x1 i x2 show ?thesis by (intro conjI)
qed

subsection \<open>Session invariant\<close>

text \<open>
  Claim C8. In the state after any number of candles of a session, and in the state \<open>run\<close>
  returns: no two neighbouring records of the log are both ENTRY; every EXIT record directly
  follows an ENTRY record; the entries outnumber the exits by one when the position is open
  and by none when it is closed; an open position has a positive quantity; the log holds at
  most two entries; and \<open>executeSellOrder\<close>, called while a position is open or after the
  trade cap is reached, changes neither the log nor the position nor the risk manager.
\<close>

theorem trade_log_discipline:
  assumes "run_loop rnd (session_start rnd md) (take n (candles md)) = Inr e
         \<or> simulateLiveDataFeed rnd md = Inr e"
  shows "(\<forall>i. Suc i < length (trade_log e) \<longrightarrow>
            \<not> (type (trade_log e ! i) = ENTRY \<and> type (trade_log e ! Suc i) = ENTRY))
       \<and> (\<forall>i < length (trade_log e). type (trade_log e ! i) = EXIT \<longrightarrow>
            0 < i \<and> type (trade_log e ! (i - 1)) = ENTRY)
       \<and> length (filter (\<lambda>t. type t = ENTRY) (trade_log e))
           = length (filter (\<lambda>t. type t = EXIT) (trade_log e))
             + (if is_open (position e) then 1 else 0)
       \<and> (is_open (position e) \<longrightarrow> 0 < Position.quantity (position e))
       \<and> length (filter (\<lambda>t. type t = ENTRY) (trade_log e)) \<le> 2
       \<and> (\<forall>c e'. (is_open (position e) \<or> \<not> canTrade (risk_manager e)) \<longrightarrow>
             executeSellOrder rnd e c = Inr e' \<longrightarrow>
             trade_log e' = trade_log e \<and> position e' = position e
           \<and> risk_manager e' = risk_manager e)"
proof -
  have start: "engine_inv rnd (session_start rnd md)" by (simp add: session_start_def inv_new)
  have inv: "engine_inv rnd e"
  proof -
    from assms consider "run_loop rnd (session_start rnd md) (take n (candles md)) = Inr e"
      | "simulateLiveDataFeed rnd md = Inr e" by blast
    then show ?thesis
    proof cases
      case 1 with start show ?thesis by (rule inv_run_loop)
    next
      case 2
      then obtain e1 where i1: "engine_inv rnd e1"
        and e: "e = (if is_open (position e1)
                     then closePosition rnd e1 (last (candles md)) ''End of Market Data''
                     else e1)"
        by (rule run_fresh)
      from e i1 inv_closePosition [OF i1] show ?thesis by auto
    qed
  qed
  then have lp: "log_paired rnd (trade_log e)" by (simp add: engine_inv_def)
  from lp have a: "\<forall>i. Suc i < length (trade_log e) \<longrightarrow>
            \<not> (type (trade_log e ! i) = ENTRY \<and> type (trade_log e ! Suc i) = ENTRY)"
    using log_paired_no_double_entry by blast
  from lp have b: "\<forall>i < length (trade_log e). type (trade_log e ! i) = EXIT \<longrightarrow>
            0 < i \<and> type (trade_log e ! (i - 1)) = ENTRY"
    using log_paired_exit by blast
  from inv log_paired_counts [OF lp] have c: "length (filter (\<lambda>t. type t = ENTRY) (trade_log e))
           = length (filter (\<lambda>t. type t = EXIT) (trade_log e)) + (if is_open (position e) then 1 else 0)"
    by (simp add: engine_inv_def)
  have d: "is_open (position e) \<longrightarrow> 0 < Position.quantity (position e)"
  proof
    assume o: "is_open (position e)"
    with inv have "odd (length (trade_log e))" by (simp add: engine_inv_def)
    with lp have "0 < Trade.quantity (last (trade_log e))" by (simp add: log_paired_last_entry)
    with inv o show "0 < Position.quantity (position e)" by (simp add: engine_inv_def)
  qed
  from inv have f: "length (filter (\<lambda>t. type t = ENTRY) (trade_log e)) \<le> 2"
    by (simp add: engine_inv_def MAX_DAILY_TRADES_def)
  have g: "\<forall>c e'. (is_open (position e) \<or> \<not> canTrade (risk_manager e)) \<longrightarrow>
             executeSellOrder rnd e c = Inr e' \<longrightarrow>
             trade_log e' = trade_log e \<and> position e' = position e \<and> risk_manager e' = risk_manager e"
    by (auto simp: executeSellOrder_def logMessage_def split: if_splits)
  from a b c d f g show ?thesis by blast
qed

theorem trade_log_discipline_witness:
  "\<exists>e. run_loop binary64 (session_start binary64 demo_data) (take 3 (candles demo_data)) = Inr e
      \<and> is_open (position e) \<and> 0 < Position.quantity (position e)
      \<and> map type (trade_log e) = [ENTRY]
      \<and> length (filter (\<lambda>t. type t = EXIT) (trade_log e)) = 0
      \<and> (\<forall>c e'. executeSellOrder binary64 e c = Inr e' \<longrightarrow> trade_log e' = trade_log e)"
proof -
  from demo_prefix3 obtain e
    where r: "run_loop binary64 (session_start binary64 demo_data) (take 3 (candles demo_data)) = Inr e"
      and t: "map type (trade_log e) = [ENTRY]" and o: "is_open (position e)"
    by (elim exE conjE)
  note th = trade_log_discipline [of binary64 demo_data 3 e, OF disjI1, OF r]
  from th [THEN conjunct2, THEN conjunct2, THEN conjunct2, THEN conjunct1] o
  have q: "0 < Position.quantity (position e)" by simp
  from t obtain a where a: "trade_log e = [a]" "type a = ENTRY" by auto
  then have x: "length (filter (\<lambda>t. type t = EXIT) (trade_log e)) = 0" by simp
  note g = th [THEN conjunct2, THEN conjunct2, THEN conjunct2, THEN conjunct2, THEN conjunct2, rule_format]
  have d: "\<forall>c e'. executeSellOrder binary64 e c = Inr e' \<longrightarrow> trade_log e' = trade_log e"
  proof (intro allI impI)
    fix c e' assume "executeSellOrder binary64 e c = Inr e'"
    with o g [of c e'] show "trade_log e' = trade_log e" by simp
  qed
  show ?thesis
    by (intro exI conjI) (rule r o q t x d)+
qed

subsection \<open>Risk thresholds\<close>

text \<open>
  Claim C5 as stated fails. For an initial capital of 100000 the take-profit amount of the
  program is the double product \<open>100000 * 0.07\<close>, which is \<open>7000 + 2 ^ -40\<close> and not
  \<open>0.07 * 100000\<close>; an unrealised PnL of 7000, which is at least \<open>0.07 * 100000\<close>, does not pass
  the take-profit test.
\<close>

theorem take_profit_amount_is_rounded:
  "take_profit_amount (new_RiskManager binary64 100000) = 7696581394432001 / 1099511627776
   \<and> take_profit_amount (new_RiskManager binary64 100000) \<noteq> 0.07 * 100000
   \<and> (7000 :: real) \<ge> 0.07 * 100000
   \<and> \<not> isTakeProfitHit (new_RiskManager binary64 100000) 7000"
  by (simp add: new_RiskManager_def isTakeProfitHit_def TAKE_PROFIT_PCT_def fp_defs binary64_vals)

text \<open>
  Claim C5, amended. For every initial capital \<open>K\<close> the risk manager is built with the
  stop-loss amount \<open>K * 0.02\<close> and the take-profit amount \<open>K * 0.07\<close>, each the double product
  with the double nearest to the literal; \<open>updateCapital\<close> changes neither; in the state after
  any number of candles of a session, and in the state \<open>run\<close> returns, both amounts are still
  those of the initial capital, the stop-loss test holds exactly when the unrealised PnL is
  at most minus the stop-loss amount and the take-profit test exactly when it is at least
  the take-profit amount. For \<open>K = 100000\<close> the stop-loss amount is 2000, the stop-loss test
  holds at -2000 and fails at -1999.99.
\<close>

theorem risk_thresholds:
  "stop_loss_amount (new_RiskManager rnd K) = fmul rnd K (rnd 0.02)
   \<and> take_profit_amount (new_RiskManager rnd K) = fmul rnd K (rnd 0.07)
   \<and> stop_loss_amount (updateCapital rnd rm p) = stop_loss_amount rm
   \<and> take_profit_amount (updateCapital rnd rm p) = take_profit_amount rm
   \<and> (\<forall>e'. run_loop rnd (session_start rnd md) (take n (candles md)) = Inr e'
            \<or> simulateLiveDataFeed rnd md = Inr e' \<longrightarrow>
          getStopLossAmount (risk_manager e') = fmul rnd (capital md) (rnd 0.02)
        \<and> getTakeProfitAmount (risk_manager e') = fmul rnd (capital md) (rnd 0.07)
        \<and> (\<forall>u. isStopLossHit (risk_manager e') u \<longleftrightarrow> u \<le> - fmul rnd (capital md) (rnd 0.02))
        \<and> (\<forall>u. isTakeProfitHit (risk_manager e') u \<longleftrightarrow> u \<ge> fmul rnd (capital md) (rnd 0.07)))
   \<and> (isStopLossHit (new_RiskManager rnd K) u \<longleftrightarrow> u \<le> - fmul rnd K (rnd 0.02))
   \<and> (isTakeProfitHit (new_RiskManager rnd K) u \<longleftrightarrow> u \<ge> fmul rnd K (rnd 0.07))
   \<and> stop_loss_amount (new_RiskManager binary64 100000) = 2000
   \<and> isStopLossHit (new_RiskManager binary64 100000) (- 2000)
   \<and> \<not> isStopLossHit (new_RiskManager binary64 100000) (binary64 (- 1999.99))"
proof -
  have run: "getStopLossAmount (risk_manager e') = fmul rnd (capital md) (rnd 0.02)
        \<and> getTakeProfitAmount (risk_manager e') = fmul rnd (capital md) (rnd 0.07)
        \<and> (\<forall>u. isStopLossHit (risk_manager e') u \<longleftrightarrow> u \<le> - fmul rnd (capital md) (rnd 0.02))
        \<and> (\<forall>u. isTakeProfitHit (risk_manager e') u \<longleftrightarrow> u \<ge> fmul rnd (capital md) (rnd 0.07))"
    if a: "run_loop rnd (session_start rnd md) (take n (candles md)) = Inr e'
         \<or> simulateLiveDataFeed rnd md = Inr e'" for e'
  proof -
    have "config_unchanged (new_TradingEngine rnd md) e'"
    proof -
      from a consider "run_loop rnd (session_start rnd md) (take n (candles md)) = Inr e'"
        | "simulateLiveDataFeed rnd md = Inr e'" by blast
      then show ?thesis
      proof cases
        case 1
        from config_run_loop [OF 1] show ?thesis
          by (simp add: config_unchanged_def session_start_def)
      next
        case 2
        then obtain e1 where c: "config_unchanged (new_TradingEngine rnd md) e1"
          and e: "e' = (if is_open (position e1)
                        then closePosition rnd e1 (last (candles md)) ''End of Market Data''
                        else e1)"
          by (rule run_fresh)
        from e c config_closePosition [of e1 rnd] show ?thesis by (auto intro: config_trans)
      qed
    qed
    then have sl: "stop_loss_amount (risk_manager e') = fmul rnd (capital md) (rnd 0.02)"
      and tp: "take_profit_amount (risk_manager e') = fmul rnd (capital md) (rnd 0.07)"
      by (simp_all add: config_unchanged_def new_TradingEngine_def new_RiskManager_def
          STOP_LOSS_PCT_def TAKE_PROFIT_PCT_def)
    show ?thesis
      by (simp add: getStopLossAmount_def getTakeProfitAmount_def isStopLossHit_def
          isTakeProfitHit_def sl tp)
  qed
  have rest: "stop_loss_amount (new_RiskManager rnd K) = fmul rnd K (rnd 0.02)
   \<and> take_profit_amount (new_RiskManager rnd K) = fmul rnd K (rnd 0.07)
   \<and> stop_loss_amount (updateCapital rnd rm p) = stop_loss_amount rm
   \<and> take_profit_amount (updateCapital rnd rm p) = take_profit_amount rm"
    by (simp add: new_RiskManager_def updateCapital_def STOP_LOSS_PCT_def TAKE_PROFIT_PCT_def)
  have tests: "(isStopLossHit (new_RiskManager rnd K) u \<longleftrightarrow> u \<le> - fmul rnd K (rnd 0.02))
   \<and> (isTakeProfitHit (new_RiskManager rnd K) u \<longleftrightarrow> u \<ge> fmul rnd K (rnd 0.07))"
    by (simp add: new_RiskManager_def isStopLossHit_def isTakeProfitHit_def STOP_LOSS_PCT_def
        TAKE_PROFIT_PCT_def)
  have ex: "stop_loss_amount (new_RiskManager binary64 100000) = 2000
   \<and> isStopLossHit (new_RiskManager binary64 100000) (- 2000)
   \<and> \<not> isStopLossHit (new_RiskManager binary64 100000) (binary64 (- 1999.99))"
    by (simp add: new_RiskManager_def isStopLossHit_def STOP_LOSS_PCT_def fp_defs binary64_vals)
  from run rest tests ex show ?thesis by blast
qed

theorem risk_thresholds_witness:
  "\<exists>e'. run_loop binary64 (session_start binary64 demo_data) (take 3 (candles demo_data)) = Inr e'
      \<and> getStopLossAmount (risk_manager e') = 2000
      \<and> getTakeProfitAmount (risk_manager e') = 7696581394432001 / 1099511627776
      \<and> isStopLossHit (risk_manager e') (- 2000)
      \<and> \<not> isTakeProfitHit (risk_manager e') 7000"
proof -
  from demo_prefix3 obtain e
    where r: "run_loop binary64 (session_start binary64 demo_data) (take 3 (candles demo_data))
                = Inr e"
    by (elim exE conjE)
  note th = risk_thresholds [where rnd = binary64 and md = demo_data and n = 3,
      THEN conjunct2, THEN conjunct2, THEN conjunct2, THEN conjunct2, THEN conjunct1,
      rule_format, OF disjI1, OF r]
  have a: "getStopLossAmount (risk_manager e) = 2000"
    using th [THEN conjunct1] by (simp add: demo_data_def fp_defs binary64_vals)
  have b: "getTakeProfitAmount (risk_manager e) = 7696581394432001 / 1099511627776"
    using th [THEN conjunct2, THEN conjunct1] by (simp add: demo_data_def fp_defs binary64_vals)
  note sl = th [THEN conjunct2, THEN conjunct2, THEN conjunct1, rule_format]
  note tp = th [THEN conjunct2, THEN conjunct2, THEN conjunct2, rule_format]
  have c: "isStopLossHit (risk_manager e) (- 2000)"
    by (simp add: sl demo_data_def fp_defs binary64_vals)
  have d: "\<not> isTakeProfitHit (risk_manager e) 7000"
    by (simp add: tp demo_data_def fp_defs binary64_vals)
  show ?thesis by (intro exI conjI) (rule r a b c d)+
qed

subsection \<open>Position sizing\<close>

text \<open>
  Claim C6 as stated fails. Sizing is not non-increasing across the guard for prices that
  are not positive (price 0 gives 0, price 1 gives 100 on a capital of 100). On a negative
  capital the cast rounds toward zero, so the result is negative and is not the floor (-16
  against a floor of -17). And the cast is applied to the double quotient: on a capital of
  100000 at the price 33333.333333333336 (the double \<open>4581298449066667 / 2 ^ 37\<close>) the exact
  quotient is below 3, the double quotient is 3, and the result is 3, not the floor 2.
\<close>

theorem calculatePositionSize_not_floor:
  "(0::real) \<le> 1
   \<and> calculatePositionSize binary64 (new_RiskManager binary64 100) 0 = Inr 0
   \<and> calculatePositionSize binary64 (new_RiskManager binary64 100) 1 = Inr 100
   \<and> current_capital (updateCapital binary64 (new_RiskManager binary64 1000) (- 2691)) = - 1691
   \<and> calculatePositionSize binary64 (updateCapital binary64 (new_RiskManager binary64 1000) (- 2691))
         100 = Inr (- 16)
   \<and> \<lfloor>(- 1691 :: real) / 100\<rfloor> = - 17
   \<and> calculatePositionSize binary64 (new_RiskManager binary64 100000)
         (4581298449066667 / 137438953472) = Inr 3
   \<and> \<lfloor>(100000 :: real) / (4581298449066667 / 137438953472)\<rfloor> = 2"
  by (simp add: calculatePositionSize_def static_cast_int_def new_RiskManager_def updateCapital_def
      INT_MIN_def INT_MAX_def fp_defs binary64_vals)

text \<open>
  Claim C6, amended. \<open>calculatePositionSize\<close> returns 0 for every price that is not positive.
  For a positive price it returns the double quotient of the current capital by the price,
  rounded toward zero, whenever that fits an \<^verbatim>\<open>int\<close>: the floor of the double quotient when
  that is not negative, its ceiling when it is negative. On a capital that is not negative
  every result is at least 0, and over positive prices the result does not increase with
  the price; both hold for every rounding that is monotone on the numbers that are not
  negative and keeps 0, as rounding to the nearest double is.
\<close>

theorem calculatePositionSize_amended:
  "(ep \<le> 0 \<longrightarrow> calculatePositionSize rnd rm ep = Inr 0)
   \<and> (0 < ep \<and> 0 \<le> fdiv rnd (current_capital rm) ep
        \<and> fdiv rnd (current_capital rm) ep < 2147483648 \<longrightarrow>
        calculatePositionSize rnd rm ep = Inr \<lfloor>fdiv rnd (current_capital rm) ep\<rfloor>)
   \<and> (0 < ep \<and> fdiv rnd (current_capital rm) ep < 0
        \<and> - 2147483649 < fdiv rnd (current_capital rm) ep \<longrightarrow>
        calculatePositionSize rnd rm ep = Inr \<lceil>fdiv rnd (current_capital rm) ep\<rceil>)
   \<and> ((\<forall>x y. 0 \<le> x \<and> x \<le> y \<longrightarrow> rnd x \<le> rnd y) \<and> rnd 0 = 0
        \<and> 0 \<le> current_capital rm \<and> calculatePositionSize rnd rm ep = Inr q \<longrightarrow> 0 \<le> q)
   \<and> ((\<forall>x y. 0 \<le> x \<and> x \<le> y \<longrightarrow> rnd x \<le> rnd y) \<and> rnd 0 = 0
        \<and> 0 \<le> current_capital rm \<and> 0 < ep1 \<and> ep1 \<le> ep2
        \<and> calculatePositionSize rnd rm ep1 = Inr q1 \<and> calculatePositionSize rnd rm ep2 = Inr q2 \<longrightarrow>
        q2 \<le> q1)
   \<and> (\<forall>x y. 0 \<le> x \<and> x \<le> y \<longrightarrow> binary64 x \<le> binary64 y) \<and> binary64 0 = 0"
proof -
  let ?cap = "current_capital rm"
  have a: "ep \<le> 0 \<longrightarrow> calculatePositionSize rnd rm ep = Inr 0"
    by (simp add: calculatePositionSize_def)
  have b: "0 < ep \<and> 0 \<le> fdiv rnd ?cap ep \<and> fdiv rnd ?cap ep < 2147483648 \<longrightarrow>
        calculatePositionSize rnd rm ep = Inr \<lfloor>fdiv rnd ?cap ep\<rfloor>"
    by (simp add: calculatePositionSize_def static_cast_int_nonneg)
  have c: "0 < ep \<and> fdiv rnd ?cap ep < 0 \<and> - 2147483649 < fdiv rnd ?cap ep \<longrightarrow>
        calculatePositionSize rnd rm ep = Inr \<lceil>fdiv rnd ?cap ep\<rceil>"
    by (simp add: calculatePositionSize_def static_cast_int_neg)
  have quot: "0 \<le> fdiv rnd ?cap x"
    if "\<forall>x y. 0 \<le> x \<and> x \<le> y \<longrightarrow> rnd x \<le> rnd y" "rnd 0 = 0" "0 \<le> ?cap" "0 < x" for x
  proof -
    from that(3,4) have "0 \<le> ?cap / x" by simp
    with that(1) have "rnd 0 \<le> rnd (?cap / x)" by blast
    with that(2) show ?thesis by (simp add: fdiv_def)
  qed
  have size: "q' = \<lfloor>fdiv rnd ?cap x\<rfloor>"
    if "\<forall>x y. 0 \<le> x \<and> x \<le> y \<longrightarrow> rnd x \<le> rnd y" "rnd 0 = 0" "0 \<le> ?cap" "0 < x"
      "calculatePositionSize rnd rm x = Inr q'" for x q'
  proof -
    from that(1-4) have "0 \<le> fdiv rnd ?cap x" by (rule quot)
    with that(4,5) show ?thesis
      by (auto simp: calculatePositionSize_def static_cast_int_def Let_def split: if_splits)
  qed
  have d: "(\<forall>x y. 0 \<le> x \<and> x \<le> y \<longrightarrow> rnd x \<le> rnd y) \<and> rnd 0 = 0
        \<and> 0 \<le> ?cap \<and> calculatePositionSize rnd rm ep = Inr q \<longrightarrow> 0 \<le> q"
  proof
    assume h: "(\<forall>x y. 0 \<le> x \<and> x \<le> y \<longrightarrow> rnd x \<le> rnd y) \<and> rnd 0 = 0
        \<and> 0 \<le> ?cap \<and> calculatePositionSize rnd rm ep = Inr q"
    show "0 \<le> q"
    proof (cases "ep \<le> 0")
      case True with h show ?thesis by (simp add: calculatePositionSize_def)
    next
      case False
      then have p: "0 < ep" by simp
      from h p have "q = \<lfloor>fdiv rnd ?cap ep\<rfloor>" by (intro size) simp_all
      moreover from h p have "0 \<le> fdiv rnd ?cap ep" by (intro quot) simp_all
      ultimately show ?thesis by simp
    qed
  qed
  have e: "(\<forall>x y. 0 \<le> x \<and> x \<le> y \<longrightarrow> rnd x \<le> rnd y) \<and> rnd 0 = 0
        \<and> 0 \<le> ?cap \<and> 0 < ep1 \<and> ep1 \<le> ep2
        \<and> calculatePositionSize rnd rm ep1 = Inr q1 \<and> calculatePositionSize rnd rm ep2 = Inr q2 \<longrightarrow>
        q2 \<le> q1"
  proof
    assume h: "(\<forall>x y. 0 \<le> x \<and> x \<le> y \<longrightarrow> rnd x \<le> rnd y) \<and> rnd 0 = 0
        \<and> 0 \<le> ?cap \<and> 0 < ep1 \<and> ep1 \<le> ep2
        \<and> calculatePositionSize rnd rm ep1 = Inr q1 \<and> calculatePositionSize rnd rm ep2 = Inr q2"
    then have q1: "q1 = \<lfloor>fdiv rnd ?cap ep1\<rfloor>" by (intro size) simp_all
    from h have q2: "q2 = \<lfloor>fdiv rnd ?cap ep2\<rfloor>" by (intro size) simp_all
    from h have "0 \<le> ?cap / ep2" and "?cap / ep2 \<le> ?cap / ep1"
      by (simp_all add: divide_left_mono)
    with h have "rnd (?cap / ep2) \<le> rnd (?cap / ep1)" by blast
    with q1 q2 show "q2 \<le> q1" by (simp add: fdiv_def floor_mono)
  qed
  have f: "(\<forall>x y. 0 \<le> x \<and> x \<le> y \<longrightarrow> binary64 x \<le> binary64 y) \<and> binary64 0 = 0"
    by (simp add: binary64_mono_nonneg binary64_0)
  from a b c d e f show ?thesis by blast
qed

theorem calculatePositionSize_amended_witness:
  "calculatePositionSize binary64 (new_RiskManager binary64 100000) 0 = Inr 0
   \<and> calculatePositionSize binary64 (new_RiskManager binary64 100000) 101 = Inr 990
   \<and> calculatePositionSize binary64 (updateCapital binary64 (new_RiskManager binary64 1000) (- 2691))
        100 = Inr (- 16)
   \<and> (0::int) \<le> 990
   \<and> calculatePositionSize binary64 (new_RiskManager binary64 100000) 103 = Inr 970
   \<and> (970::int) \<le> 990"
proof -
  let ?rm = "new_RiskManager binary64 100000"
  let ?neg = "updateCapital binary64 (new_RiskManager binary64 1000) (- 2691)"
  have mono: "(\<forall>x y. 0 \<le> x \<and> x \<le> y \<longrightarrow> binary64 x \<le> binary64 y) \<and> binary64 0 = 0"
    by (rule calculatePositionSize_amended [THEN conjunct2, THEN conjunct2, THEN conjunct2,
          THEN conjunct2, THEN conjunct2])
  have cap: "current_capital ?rm = 100000" by (simp add: new_RiskManager_def)
  have q101: "fdiv binary64 (current_capital ?rm) 101 = 8709002992285149 / 8796093022208"
    by (simp add: cap fp_defs binary64_vals)
  have q103: "fdiv binary64 (current_capital ?rm) 103 = 8539896138066019 / 8796093022208"
    by (simp add: cap fp_defs binary64_vals)
  have qneg: "fdiv binary64 (current_capital ?neg) 100 = - (4759741856177193 / 281474976710656)"
    by (simp add: new_RiskManager_def updateCapital_def fp_defs binary64_vals)
  have a: "calculatePositionSize binary64 ?rm 0 = Inr 0"
    using calculatePositionSize_amended [where rnd = binary64 and rm = ?rm and ep = 0,
        THEN conjunct1] by simp
  have b: "calculatePositionSize binary64 ?rm 101 = Inr 990"
    using calculatePositionSize_amended [where rnd = binary64 and rm = ?rm and ep = 101,
        THEN conjunct2, THEN conjunct1] by (simp add: q101)
  have c: "calculatePositionSize binary64 ?rm 103 = Inr 970"
    using calculatePositionSize_amended [where rnd = binary64 and rm = ?rm and ep = 103,
        THEN conjunct2, THEN conjunct1] by (simp add: q103)
  have d: "calculatePositionSize binary64 ?neg 100 = Inr (- 16)"
    using calculatePositionSize_amended [where rnd = binary64 and rm = ?neg and ep = 100,
        THEN conjunct2, THEN conjunct2, THEN conjunct1] by (simp add: qneg)
  have e: "(0::int) \<le> 990"
    using calculatePositionSize_amended [where rnd = binary64 and rm = ?rm and ep = 101
        and q = 990, THEN conjunct2, THEN conjunct2, THEN conjunct2, THEN conjunct1] mono b cap
    by simp
  have f: "(970::int) \<le> 990"
    using calculatePositionSize_amended [where rnd = binary64 and rm = ?rm and ?ep1.0 = 101
        and ?ep2.0 = 103 and ?q1.0 = 990 and ?q2.0 = 970, THEN conjunct2, THEN conjunct2,
        THEN conjunct2, THEN conjunct2, THEN conjunct1] mono b c cap
    by simp
  from a b d e c f show ?thesis by blast
qed

subsection \<open>The order of a step\<close>

lemma Position_open_fields:
  "Position_open p s pr q ts =
     \<lparr>is_open = True, Position.side = s, entry_price = pr, Position.quantity = q,
      entry_timestamp = ts\<rparr>"
  by (cases p) (simp add: Position_open_def)

lemma Position_close_fields:
  "Position_close p =
     \<lparr>is_open = False, Position.side = Position.side p, entry_price = 0, Position.quantity = 0,
      entry_timestamp = []\<rparr>"
  by (cases p) (simp add: Position_close_def)

lemma whipsaw_step:
  "\<exists>e e'. run_loop binary64 (session_start binary64 whipsaw_data) (take 4 (candles whipsaw_data))
              = Inr e
      \<and> run_step binary64 e (candles whipsaw_data ! 4) = Inr e'
      \<and> spec_exit binary64 e (candles whipsaw_data ! 4) = ExitSL
      \<and> fst (processCandle binary64 (strategy e) (candles whipsaw_data ! 4))
      \<and> current_capital (risk_manager e) = 100000
      \<and> trades_today (risk_manager e) = 1
      \<and> getUnrealizedPnL binary64 (position e) (close (candles whipsaw_data ! 4)) = - 2970
      \<and> map type (new_trades e e') = [EXIT, ENTRY]
      \<and> map Trade.quantity (new_trades e e') = [990, 932]
      \<and> new_console e e' = [''Stop Loss Hit'']"
  by (simp add: whipsaw_data_def whipsaw_candles_def run_defs spec_exit_def new_trades_def
      new_console_def)

lemma late_step:
  "\<exists>e e'. run_loop binary64 (session_start binary64 late_data) (take 3 (candles late_data)) = Inr e
      \<and> session_active e
      \<and> run_step binary64 e (candles late_data ! 3) = Inr e'
      \<and> spec_exit binary64 e (candles late_data ! 3) = ExitTime
      \<and> \<not> session_active e'
      \<and> run_loop binary64 e (drop 3 (candles late_data)) = Inr e'"
  by (simp add: late_data_def late_candles_def run_defs spec_exit_def)

text \<open>
  Claim C2. A step of the loop that returns has fed the candle to the strategy. It appends
  at most one EXIT record, and the records it appends are, in this order, the exit if there
  is one and the entry if there is one. With a position open the first of stop-loss,
  take-profit and market-close cutoff that holds decides the exit: the record is at the
  candle's close with the unrealised PnL, the capital becomes the double sum of the capital
  and that PnL, the position is closed and its price, quantity and time are cleared, the
  reason printed first is the one of that condition, and only the cutoff ends the session,
  after which no entry is made. An entry is made only on a signal, on a session still
  active, with no position open after the exit phase; it is sized on the capital as the exit
  left it, as the double quotient of that capital by the close, rounded down, which is
  positive; the position is then a short one at the candle's close, of that quantity, opened
  at the candle's time, and the count of trades of the day grows by one. A step that makes
  no entry leaves that count as it is, and a step that appends nothing leaves the position
  as it is.
\<close>

theorem run_step_order:
  assumes "run_step rnd e c = Inr e'"
  shows "strategy e' = snd (processCandle rnd (strategy e) c)
    \<and> trade_log e' = trade_log e @ new_trades e e'
    \<and> console e' = console e @ new_console e e'
    \<and> length (filter (\<lambda>t. type t = EXIT) (new_trades e e')) \<le> 1
    \<and> (spec_exit rnd e c = NoExit \<longrightarrow>
          map type (new_trades e e') \<in> {[], [ENTRY]}
        \<and> session_active e' = session_active e
        \<and> current_capital (risk_manager e') = current_capital (risk_manager e)
        \<and> (new_trades e e' = [] \<longrightarrow> position e' = position e))
    \<and> (spec_exit rnd e c = ExitSL \<longrightarrow>
          map type (new_trades e e') \<in> {[EXIT], [EXIT, ENTRY]}
        \<and> hd (new_console e e') = ''Stop Loss Hit''
        \<and> session_active e' = session_active e)
    \<and> (spec_exit rnd e c = ExitTP \<longrightarrow>
          map type (new_trades e e') \<in> {[EXIT], [EXIT, ENTRY]}
        \<and> hd (new_console e e') = ''Take Profit Hit''
        \<and> session_active e' = session_active e)
    \<and> (spec_exit rnd e c = ExitTime \<longrightarrow>
          map type (new_trades e e') = [EXIT]
        \<and> new_console e e' = [''Market Close (15:00)'']
        \<and> \<not> session_active e')
    \<and> (spec_exit rnd e c \<noteq> NoExit \<longrightarrow>
          is_open (position e)
        \<and> hd (new_trades e e') =
            \<lparr>Trade.timestamp = Candle.timestamp c, Trade.side = Position.side (position e),
             type = EXIT, price = close c, Trade.quantity = Position.quantity (position e),
             pnl = getUnrealizedPnL rnd (position e) (close c)\<rparr>
        \<and> current_capital (risk_manager e')
            = fadd rnd (current_capital (risk_manager e))
                (getUnrealizedPnL rnd (position e) (close c))
        \<and> (map type (new_trades e e') = [EXIT] \<longrightarrow>
             position e' =
               \<lparr>is_open = False, Position.side = Position.side (position e), entry_price = 0,
                Position.quantity = 0, entry_timestamp = []\<rparr>))
    \<and> (\<forall>t \<in> set (new_trades e e'). type t = ENTRY \<longrightarrow>
          fst (processCandle rnd (strategy e) c)
        \<and> session_active e'
        \<and> (is_open (position e) \<longrightarrow> spec_exit rnd e c \<in> {ExitSL, ExitTP})
        \<and> t = \<lparr>Trade.timestamp = Candle.timestamp c, Trade.side = SELL, type = ENTRY,
                price = close c,
                Trade.quantity = \<lfloor>fdiv rnd (current_capital (risk_manager e')) (close c)\<rfloor>,
                pnl = 0\<rparr>
        \<and> 0 < Trade.quantity t
        \<and> position e' =
            \<lparr>is_open = True, Position.side = SELL, entry_price = close c,
             Position.quantity = Trade.quantity t, entry_timestamp = Candle.timestamp c\<rparr>
        \<and> trades_today (risk_manager e') = trades_today (risk_manager e) + 1)
    \<and> ((\<forall>t \<in> set (new_trades e e'). type t \<noteq> ENTRY) \<longrightarrow>
          trades_today (risk_manager e') = trades_today (risk_manager e))"
proof -
  let ?st = "snd (processCandle rnd (strategy e) c)"
  let ?sg = "fst (processCandle rnd (strategy e) c)"
  let ?e0 = "e\<lparr>strategy := ?st\<rparr>"
  let ?u = "getUnrealizedPnL rnd (position e) (close c)"
  let ?x = "\<lparr>Trade.timestamp = Candle.timestamp c, Trade.side = Position.side (position e),
             type = EXIT, price = close c, Trade.quantity = Position.quantity (position e),
             pnl = ?u\<rparr>"
  let ?closed = "\<lparr>is_open = False, Position.side = Position.side (position e), entry_price = 0,
                Position.quantity = 0, entry_timestamp = []\<rparr>"
  from assms obtain e1 where x: "checkExitConditions rnd ?e0 c = Inr e1"
    and y: "e' = e1 \<or> (?sg \<and> session_active e1 \<and> executeSellOrder rnd e1 c = Inr e')"
    by (rule run_step_cases)
  note en = entry_phase [OF y]
  from en obtain msgs where msgs: "console e' = console e1 @ msgs" by blast
  let ?q = "\<lfloor>fdiv rnd (current_capital (risk_manager e1)) (close c)\<rfloor>"
  let ?n = "\<lparr>Trade.timestamp = Candle.timestamp c, Trade.side = SELL, type = ENTRY,
                     price = close c, Trade.quantity = ?q, pnl = 0\<rparr>"
  let ?opened = "\<lparr>is_open = True, Position.side = SELL, entry_price = close c,
             Position.quantity = ?q, entry_timestamp = Candle.timestamp c\<rparr>"
  from en have tl: "(trade_log e' = trade_log e1 \<and> position e' = position e1
                      \<and> trades_today (risk_manager e') = trades_today (risk_manager e1))
      \<or> (?sg \<and> session_active e1 \<and> \<not> is_open (position e1) \<and> 0 < ?q
           \<and> trade_log e' = trade_log e1 @ [?n] \<and> position e' = ?opened
           \<and> trades_today (risk_manager e') = trades_today (risk_manager e1) + 1)"
    by (auto simp: Position_open_fields recordTrade_def)
  from en have cap: "current_capital (risk_manager e') = current_capital (risk_manager e1)"
    and sa: "session_active e' = session_active e1" and st: "strategy e' = strategy e1" by simp_all
  from checkExit_cases [OF x]
  consider (none) "spec_exit rnd e c = NoExit" "e1 = ?e0"
    | (sl) "spec_exit rnd e c = ExitSL" "e1 = closePosition rnd ?e0 c ''Stop Loss Hit''"
    | (tp) "spec_exit rnd e c = ExitTP" "e1 = closePosition rnd ?e0 c ''Take Profit Hit''"
    | (time) "spec_exit rnd e c = ExitTime"
        "e1 = (closePosition rnd ?e0 c ''Market Close (15:00)'')\<lparr>session_active := False\<rparr>"
    by auto
  then show ?thesis
  proof cases
    case none
    with tl cap sa st msgs show ?thesis
      by (auto simp: new_trades_def new_console_def)
  next
    case sl
    then have o: "is_open (position ?e0)" using spec_exit_open [of rnd e c] by simp
    from sl(2) closePosition_open [OF o] have e1: "trade_log e1 = trade_log e @ [?x]"
      "console e1 = console e @ [''Stop Loss Hit'']" "session_active e1 = session_active e"
      "strategy e1 = ?st"
      "current_capital (risk_manager e1) = fadd rnd (current_capital (risk_manager e)) ?u"
      "position e1 = ?closed" "trades_today (risk_manager e1) = trades_today (risk_manager e)"
      by (simp_all add: updateCapital_def Position_close_fields)
    from o have o': "is_open (position e)" by simp
    from sl(1) tl cap sa st msgs e1 o' show ?thesis
      by (auto simp: new_trades_def new_console_def)
  next
    case tp
    then have o: "is_open (position ?e0)" using spec_exit_open [of rnd e c] by simp
    from tp(2) closePosition_open [OF o] have e1: "trade_log e1 = trade_log e @ [?x]"
      "console e1 = console e @ [''Take Profit Hit'']" "session_active e1 = session_active e"
      "strategy e1 = ?st"
      "current_capital (risk_manager e1) = fadd rnd (current_capital (risk_manager e)) ?u"
      "position e1 = ?closed" "trades_today (risk_manager e1) = trades_today (risk_manager e)"
      by (simp_all add: updateCapital_def Position_close_fields)
    from o have o': "is_open (position e)" by simp
    from tp(1) tl cap sa st msgs e1 o' show ?thesis
      by (auto simp: new_trades_def new_console_def)
  next
    case time
    then have o: "is_open (position ?e0)" using spec_exit_open [of rnd e c] by simp
    from time(2) closePosition_open [OF o] have e1: "trade_log e1 = trade_log e @ [?x]"
      "console e1 = console e @ [''Market Close (15:00)'']" "\<not> session_active e1"
      "strategy e1 = ?st"
      "current_capital (risk_manager e1) = fadd rnd (current_capital (risk_manager e)) ?u"
      "position e1 = ?closed" "trades_today (risk_manager e1) = trades_today (risk_manager e)"
      by (simp_all add: updateCapital_def Position_close_fields)
    from o have o': "is_open (position e)" by simp
    from y e1(3) have "e' = e1" by blast
    with time(1) e1 o' show ?thesis
      by (auto simp: new_trades_def new_console_def)
  qed
qed

theorem run_step_order_witness:
  "\<exists>e e'. run_step binary64 e (candles whipsaw_data ! 4) = Inr e'
      \<and> spec_exit binary64 e (candles whipsaw_data ! 4) = ExitSL
      \<and> map type (new_trades e e') = [EXIT, ENTRY]
      \<and> hd (new_console e e') = ''Stop Loss Hit''
      \<and> session_active e' = session_active e
      \<and> current_capital (risk_manager e') = 97030
      \<and> position e' =
            \<lparr>is_open = True, Position.side = SELL, entry_price = 104,
             Position.quantity = 932, entry_timestamp = ''15:00''\<rparr>
      \<and> trades_today (risk_manager e') = 2"
proof -
  let ?c = "candles whipsaw_data ! 4"
  from whipsaw_step obtain e e'
    where r: "run_step binary64 e ?c = Inr e'"
      and k: "spec_exit binary64 e ?c = ExitSL"
      and cap: "current_capital (risk_manager e) = 100000"
      and n: "trades_today (risk_manager e) = 1"
      and u: "getUnrealizedPnL binary64 (position e) (close ?c) = - 2970"
      and t: "map type (new_trades e e') = [EXIT, ENTRY]"
    by (elim exE conjE)
  have cl: "close ?c = 104" and ts: "Candle.timestamp ?c = ''15:00''"
    by (simp_all add: whipsaw_data_def whipsaw_candles_def)
  note th = run_step_order [OF r]
  note sl = th [THEN conjunct2, THEN conjunct2, THEN conjunct2, THEN conjunct2, THEN conjunct2,
      THEN conjunct1, rule_format, OF k]
  have a: "hd (new_console e e') = ''Stop Loss Hit''" by (rule sl [THEN conjunct2, THEN conjunct1])
  have b: "session_active e' = session_active e" by (rule sl [THEN conjunct2, THEN conjunct2])
  from k have "spec_exit binary64 e ?c \<noteq> NoExit" by simp
  note ex = th [THEN conjunct2, THEN conjunct2, THEN conjunct2, THEN conjunct2, THEN conjunct2,
      THEN conjunct2, THEN conjunct2, THEN conjunct2, THEN conjunct1, rule_format, OF this]
  from ex [THEN conjunct2, THEN conjunct2, THEN conjunct1] cap u
  have c: "current_capital (risk_manager e') = 97030"
    by (simp add: fp_defs binary64_vals)
  from t obtain x y where xy: "new_trades e e' = [x, y]" and ty: "type y = ENTRY" by auto
  then have "y \<in> set (new_trades e e')" by simp
  note en = th [THEN conjunct2, THEN conjunct2, THEN conjunct2, THEN conjunct2, THEN conjunct2,
      THEN conjunct2, THEN conjunct2, THEN conjunct2, THEN conjunct2, THEN conjunct1,
      rule_format, OF this ty]
  note en4 = en [THEN conjunct2, THEN conjunct2, THEN conjunct2]
  from en4 [THEN conjunct1]
  have "Trade.quantity y = \<lfloor>fdiv binary64 (current_capital (risk_manager e')) (close ?c)\<rfloor>"
    by simp
  then have q: "Trade.quantity y = 932" by (simp add: c cl fp_defs binary64_vals)
  from en4 [THEN conjunct2, THEN conjunct2, THEN conjunct1]
  have d: "position e' =
            \<lparr>is_open = True, Position.side = SELL, entry_price = 104,
             Position.quantity = 932, entry_timestamp = ''15:00''\<rparr>"
    by (simp add: q cl ts)
  from en4 [THEN conjunct2, THEN conjunct2, THEN conjunct2] n
  have f: "trades_today (risk_manager e') = 2" by simp
  show ?thesis by (intro exI conjI) (rule r k t a b c d f)+
qed

subsection \<open>When the session ends\<close>

text \<open>
  Claim C3 as stated fails. A candle at 15:00 met with no position open leaves the session
  active: the next candle is processed, and a position is even opened at 15:05. A candle at
  15:00 on which the stop-loss closes the position leaves the session active as well.
\<close>

theorem session_not_ended_at_close_time:
  "isPastMarketClose (Candle.timestamp (late_candles ! 1)) = Inr True
   \<and> map_sum id session_active
       (run_loop binary64 (session_start binary64 late_data) (take 2 late_candles)) = Inr True
   \<and> map_sum id session_active
       (run_loop binary64 (session_start binary64 late_data) (take 3 late_candles)) = Inr True
   \<and> map_sum id trade_log
       (run_loop binary64 (session_start binary64 late_data) (take 3 late_candles))
       = Inr [\<lparr>Trade.timestamp = ''15:05'', Trade.side = SELL, type = ENTRY, price = 101,
               Trade.quantity = 990, pnl = 0\<rparr>]
   \<and> isPastMarketClose (Candle.timestamp (whipsaw_candles ! 4)) = Inr True
   \<and> map_sum id console
       (run_loop binary64 (session_start binary64 whipsaw_data) whipsaw_candles)
       = Inr [''Stop Loss Hit'']
   \<and> map_sum id session_active
       (run_loop binary64 (session_start binary64 whipsaw_data) whipsaw_candles) = Inr True"
  by (simp add: late_data_def late_candles_def whipsaw_data_def whipsaw_candles_def run_defs)

text \<open>
  Claim C3, amended. A step on an active session ends the session exactly when a position is
  open, neither the stop-loss nor the take-profit test holds for the candle, and the
  candle's time in minutes since midnight is at least that of 15:00, which is 900. Once the
  session has ended the loop reads no further candle and returns the engine as it is.
\<close>

theorem session_end_rule:
  "(session_active e \<and> run_step rnd e c = Inr e' \<longrightarrow>
      (\<not> session_active e' \<longleftrightarrow>
         is_open (position e)
       \<and> \<not> isStopLossHit (risk_manager e) (getUnrealizedPnL rnd (position e) (close c))
       \<and> \<not> isTakeProfitHit (risk_manager e) (getUnrealizedPnL rnd (position e) (close c))
       \<and> (\<exists>m. parseTimeToMinutes (Candle.timestamp c) = Inr m \<and> 900 \<le> m)))
   \<and> parseTimeToMinutes MARKET_CLOSE_TIME = Inr 900
   \<and> (\<not> session_active e \<longrightarrow> run_loop rnd e cs = Inr e)
   \<and> (session_active e \<and> run_step rnd e c = Inr e' \<and> \<not> session_active e' \<longrightarrow>
        run_loop rnd e (c # cs) = Inr e')"
proof -
  have k: "spec_exit rnd e c = ExitTime \<longleftrightarrow>
         is_open (position e)
       \<and> \<not> isStopLossHit (risk_manager e) (getUnrealizedPnL rnd (position e) (close c))
       \<and> \<not> isTakeProfitHit (risk_manager e) (getUnrealizedPnL rnd (position e) (close c))
       \<and> (\<exists>m. parseTimeToMinutes (Candle.timestamp c) = Inr m \<and> 900 \<le> m)"
    unfolding isPastMarketClose_True [symmetric] by (simp add: spec_exit_def)
  have a: "\<not> session_active e' \<longleftrightarrow> spec_exit rnd e c = ExitTime"
    if s: "session_active e" and r: "run_step rnd e c = Inr e'"
    using run_step_session_active [OF r] s by simp
  have b: "parseTimeToMinutes MARKET_CLOSE_TIME = Inr 900" by (simp add: time_defs)
  have c: "\<not> session_active e \<longrightarrow> run_loop rnd e cs = Inr e" by (cases cs) simp_all
  have d: "session_active e \<and> run_step rnd e c = Inr e' \<and> \<not> session_active e' \<longrightarrow>
        run_loop rnd e (c # cs) = Inr e'"
    by (cases cs) simp_all
  from a k b c d show ?thesis by blast
qed

theorem session_end_rule_witness:
  "\<exists>e e'. session_active e \<and> run_step binary64 e (candles late_data ! 3) = Inr e'
      \<and> \<not> session_active e'
      \<and> is_open (position e)
      \<and> (\<exists>m. parseTimeToMinutes (Candle.timestamp (candles late_data ! 3)) = Inr m \<and> 900 \<le> m)
      \<and> run_loop binary64 e (candles late_data ! 3 # drop 4 (candles late_data)) = Inr e'
      \<and> run_loop binary64 e' (drop 4 (candles late_data)) = Inr e'"
proof -
  from late_step obtain e e'
    where s: "session_active e" and r: "run_step binary64 e (candles late_data ! 3) = Inr e'"
      and n: "\<not> session_active e'"
    by (elim exE conjE)
  note th = session_end_rule [of e binary64 "candles late_data ! 3" e']
  from th [THEN conjunct1] s r n
  have a: "is_open (position e)
       \<and> (\<exists>m. parseTimeToMinutes (Candle.timestamp (candles late_data ! 3)) = Inr m \<and> 900 \<le> m)"
    by blast
  from session_end_rule [of e binary64 "candles late_data ! 3" e' "drop 4 (candles late_data)",
      THEN conjunct2, THEN conjunct2, THEN conjunct2] s r n
  have b: "run_loop binary64 e (candles late_data ! 3 # drop 4 (candles late_data)) = Inr e'"
    by blast
  from session_end_rule [of e' binary64 "candles late_data ! 3" e' "drop 4 (candles late_data)",
      THEN conjunct2, THEN conjunct2, THEN conjunct1] n
  have c: "run_loop binary64 e' (drop 4 (candles late_data)) = Inr e'" by blast
  from s r n a b c show ?thesis by blast
qed

end
